theory Spec2Isabelle
  imports Main "HOL-Library.Word"
begin

unbundle bit_operations_syntax

section \<open>Data model of the scheduler core (main.bpf.c)\<close>

text \<open>
  A CPU mask is the set of CPU numbers whose bit is set. CPU numbers are \<open>s32\<close> in the
  source (a negative value is an errno), so they are integers here.
\<close>

type_synonym cpumask = "int set"

text \<open>
  The \<open>const volatile\<close> globals of main.bpf.c, set once at initialisation, followed by
  what the file takes from headers and compilation units that are not part of the
  sources (intf.h, types.h, lb_domain.h, deadline.h): these are parameters.
\<close>

record config =
  nr_doms :: nat
  nr_nodes :: nat
  nr_cpu_ids :: nat
  cpu_dom_id_map :: "nat \<Rightarrow> nat"
  kthreads_local :: bool
  fifo_sched :: bool
  direct_greedy_numa :: bool
  mempolicy_affinity :: bool
  greedy_threshold :: nat
  greedy_threshold_x_numa :: nat
  MAX_CPUS :: nat
  MAX_DOMS :: nat
  NO_DOM_FOUND :: nat
  MAX_DOM_ACTIVE_TPTRS :: nat
  null_domc_id :: nat
  dom_node_id :: "nat \<Rightarrow> nat"
  init_vtime :: "nat \<Rightarrow> nat \<Rightarrow> nat"
  update_freq :: "nat \<Rightarrow> nat \<Rightarrow> nat"
  any_distribute :: "cpumask \<Rightarrow> int"
  pick_idle :: "cpumask \<Rightarrow> int"

text \<open>
  \<open>null_domc_id\<close> is what \<open>domc->id\<close> reads when \<open>rusty_select_cpu\<close> has set
  \<open>domc\<close> to NULL for an offline CPU and dereferences it all the same;
  \<open>init_vtime cfg vtime weight\<close> is the deadline that deadline.h's \<open>init_vtime\<close>
  stores in the task context; \<open>update_freq cfg freq interval\<close> is the frequency
  estimate of that name; \<open>any_distribute\<close> is the kernel's choice in
  \<open>bpf_cpumask_any_distribute\<close> (a member of the mask, or a value of at least
  \<open>nr_cpu_ids\<close> when the mask is empty); \<open>pick_idle\<close> is its choice among the
  candidates of \<open>scx_bpf_pick_idle_cpu\<close>.
\<close>

record mempolicy =
  mpol_mode_match :: bool
  home_node :: int
  nodes_bits :: "32 word option"

text \<open>
  The fields of the kernel's \<open>struct task_struct\<close> that the file reads or writes.
  \<open>mpol_mode_match\<close> is \<open>mode & (MPOL_BIND|MPOL_PREFERRED|MPOL_PREFERRED_MANY)\<close>;
  \<open>nodes_bits\<close> is the word \<open>bpf_core_read\<close> fetches from \<open>nodes.bits\<close>, \<open>None\<close>
  when the read fails;
  \<open>task_cpu\<close> is what \<open>scx_bpf_task_cpu\<close> returns.
\<close>

record task_struct =
  cpus_ptr :: cpumask
  nr_cpus_allowed :: nat
  PF_KTHREAD :: bool
  PF_WQ_WORKER :: bool
  PF_EXITING :: bool
  SCX_TASK_QUEUED :: bool
  dsq_vtime :: nat
  task_cpu :: int
  task_mempolicy :: "mempolicy option"

text \<open>
  \<open>struct task_ctx\<close> (types.h), with the fields main.bpf.c uses. \<open>domc\<close> is the arena
  pointer to the task's domain context: \<open>None\<close> is NULL, \<open>Some d\<close> points to the
  context of domain \<open>d\<close>, so that \<open>domc->id\<close> is \<open>d\<close>.
\<close>

record task_ctx =
  dom_mask :: "64 word"
  preferred_dom_mask :: "64 word"
  domc :: "nat option"
  target_dom :: nat
  all_cpus :: bool
  dispatch_local :: bool
  runnable :: bool
  is_kworker :: bool
  weight :: nat
  dom_active_tasks_gen :: nat
  sum_runtime :: nat
  deadline :: nat
  last_run_at :: nat
  last_woke_at :: nat
  waker_freq :: nat
  last_blocked_at :: nat
  blocked_freq :: nat

record dom_ctx =
  min_vruntime :: nat
  active_gen :: nat
  write_idx :: "64 word"
  active_tasks :: "nat \<Rightarrow> nat"

record lb_domain =
  lbd_cpumask :: "cpumask option"
  lbd_direct_greedy_cpumask :: "cpumask option"
  lbd_node_cpumask :: "cpumask option"

record pcpu_ctx =
  dom_rr_cur :: nat
  pcpu_dom_id :: nat

record tune_input =
  gen :: nat
  ti_slice_ns :: nat
  ti_direct_greedy_cpumask :: cpumask
  ti_kick_greedy_cpumask :: cpumask

datatype stat =
    RUSTY_STAT_WAKE_SYNC | RUSTY_STAT_SYNC_PREV_IDLE | RUSTY_STAT_PREV_IDLE
  | RUSTY_STAT_GREEDY_IDLE | RUSTY_STAT_PINNED | RUSTY_STAT_DIRECT_DISPATCH
  | RUSTY_STAT_DIRECT_GREEDY | RUSTY_STAT_DIRECT_GREEDY_FAR | RUSTY_STAT_DSQ_DISPATCH
  | RUSTY_STAT_GREEDY_LOCAL | RUSTY_STAT_GREEDY_XNUMA | RUSTY_STAT_KICK_GREEDY
  | RUSTY_STAT_REPATRIATE | RUSTY_STAT_LOAD_BALANCE | RUSTY_STAT_TASK_GET_ERR

text \<open>
  Dispatch queues: one per domain, keyed by the domain id, and one local queue per CPU.
  An entry records the task, its slice, the virtual time it was queued with (\<open>None\<close>
  for a plain insertion) and the enqueue flags.
\<close>

datatype dsq_id = DSQ_DOM nat | DSQ_LOCAL int

record dsq_entry =
  e_task :: nat
  e_slice :: nat
  e_vtime :: "nat option"
  e_flags :: nat

datatype kick = KICK_NONE | SCX_KICK_IDLE

text \<open>The three call sites of \<open>scx_bpf_dsq_move_to_local\<close> in \<open>rusty_dispatch\<close>.\<close>

datatype site = OWN_DOM | SAME_NODE | CROSS_NODE

text \<open>
  The scheduler state. Tasks are named by a number (the \<open>task_struct\<close> pointer).
  Task contexts and domain contexts live in arenas: \<open>task_ctxs\<close> and \<open>dom_ctxs\<close>
  give the memory behind a pointer, \<open>task_ctx_present\<close> and \<open>dom_present\<close> the
  keys whose lookup succeeds. \<open>task_masks\<close> is the BPF hash map of that name: an entry
  says whether the wrapper's \<open>instance\<close> pointer is set, and \<open>task_cpumasks\<close> holds
  the bits of the task's \<open>bpf_cpumask\<close>. The rest are the globals of the file, the
  kernel's idle masks and dispatch queues, and logs of the calls that leave the file
  (\<open>scx_bpf_error\<close>, \<open>scx_bpf_kick_cpu\<close>, \<open>dom_xfer_task\<close>,
  \<open>ravg_accumulate\<close>, \<open>dom_dcycle_adj\<close>, \<open>scx_bpf_dsq_move_to_local\<close>).
\<close>

record sched =
  procs :: "nat \<Rightarrow> task_struct"
  task_ctxs :: "nat \<Rightarrow> task_ctx"
  task_ctx_present :: "nat set"
  task_masks :: "nat \<rightharpoonup> bool"
  task_cpumasks :: "nat \<Rightarrow> cpumask"
  dom_ctxs :: "nat \<Rightarrow> dom_ctx"
  dom_present :: "nat set"
  lb_domains :: "nat \<rightharpoonup> lb_domain"
  pcpu_ctxs :: "int \<Rightarrow> pcpu_ctx"
  tune_input :: tune_input
  tune_params_gen :: nat
  slice_ns :: nat
  all_cpumask :: "cpumask option"
  direct_greedy_cpumask :: "cpumask option"
  kick_greedy_cpumask :: "cpumask option"
  percpu_bpfmask :: "cpumask option"
  idle_cpumask :: cpumask
  idle_smtmask :: cpumask
  dsqs :: "dsq_id \<Rightarrow> dsq_entry list"
  stats :: "stat \<Rightarrow> nat"
  kicks :: "(int \<times> kick) list"
  xfers :: "(nat \<times> nat \<times> nat) list"
  load_adjs :: "(nat \<times> nat \<times> bool) list"
  dcycle_adjs :: "(nat option \<times> nat \<times> nat \<times> bool) list"
  moves :: "(site \<times> nat) list"
  errors :: "string list"
  now :: nat
  this_cpu :: int
  current :: nat

text \<open>
  The two vtime updates of deadline.h, which is not part of the sources: they get the
  task and its domain context and may change the state in any way.
\<close>

record deadline_ops =
  running_update_vtime :: "nat \<Rightarrow> nat \<Rightarrow> sched \<Rightarrow> sched"
  stopping_update_vtime :: "nat \<Rightarrow> nat \<Rightarrow> sched \<Rightarrow> sched"

section \<open>Helpers\<close>

definition scx_bpf_error :: "string \<Rightarrow> sched \<Rightarrow> sched" where
  "scx_bpf_error msg s = s\<lparr>errors := errors s @ [msg]\<rparr>"

text \<open>
  Modelled from the spec: \<open>stat_add\<close>, whose definition is not part of the sources. The
  spec (6) has the exported counters monotonic, bumped by \<open>stat_add\<close>.
\<close>

definition stat_add :: "stat \<Rightarrow> nat \<Rightarrow> sched \<Rightarrow> sched" where
  "stat_add st n s = s\<lparr>stats := (stats s)(st := stats s st + n)\<rparr>"

definition scx_bpf_kick_cpu :: "int \<Rightarrow> kick \<Rightarrow> sched \<Rightarrow> sched" where
  "scx_bpf_kick_cpu cpu k s = s\<lparr>kicks := kicks s @ [(cpu, k)]\<rparr>"

definition bpf_cpumask_intersects :: "cpumask \<Rightarrow> cpumask \<Rightarrow> bool" where
  "bpf_cpumask_intersects a b = (a \<inter> b \<noteq> {})"

text \<open>
  Modelled from the spec: \<open>try_lookup_task_ctx\<close> of the task-storage library, which is
  not part of the sources. The spec (3, 7) has the Task Context Store associate each
  admitted task with its context, a failed lookup being a not-found error. The result
  says whether a context was found; the context is then read and written at
  \<open>task_ctxs s p\<close>.
\<close>

definition try_lookup_task_ctx :: "sched \<Rightarrow> nat \<Rightarrow> bool" where
  "try_lookup_task_ctx s p = (p \<in> task_ctx_present s)"

text \<open>
  Modelled from the spec: \<open>lookup_task_ctx\<close>, not part of the sources either: the same
  lookup, reporting a failure (spec 7: not-found is never silently defaulted).
\<close>

definition lookup_task_ctx :: "sched \<Rightarrow> nat \<Rightarrow> sched \<times> bool" where
  "lookup_task_ctx s p =
     (if try_lookup_task_ctx s p then (s, True)
      else (scx_bpf_error ''task_ctx lookup failed for task'' s, False))"

definition lookup_task_bpfmask :: "sched \<Rightarrow> nat \<Rightarrow> sched \<times> bool" where
  "lookup_task_bpfmask s p =
     (case task_masks s p of
        None \<Rightarrow> (scx_bpf_error ''lookup_mask_bpfmask failed for task'' s, False)
      | Some instance \<Rightarrow> (s, instance))"

definition lookup_task_ctx_mask :: "sched \<Rightarrow> nat \<Rightarrow> sched \<times> bool \<times> bool" where
  "lookup_task_ctx_mask s p =
     (case lookup_task_ctx s p of (s0, taskc) \<Rightarrow>
        let s1 = (if \<not> taskc then scx_bpf_error ''task_ctx lookup failed for task'' s0
                  else s0)
        in case lookup_task_bpfmask s1 p of (s2, p_cpumask) \<Rightarrow>
             let s3 = (if \<not> p_cpumask
                       then scx_bpf_error ''task bpf_cpumask lookup failed for task'' s2
                       else s2)
             in (s3, taskc, p_cpumask))"

text \<open>
  Modelled from the spec: \<open>try_lookup_dom_ctx\<close> of lb_domain.h, which is not part of the
  sources. The spec (4.1) has \<open>get_domain(id)\<close> return a handle to the domain's state or
  not-found: the lookup succeeds for the domains that were created.
\<close>

definition try_lookup_dom_ctx :: "sched \<Rightarrow> nat \<Rightarrow> nat option" where
  "try_lookup_dom_ctx s d = (if d \<in> dom_present s then Some d else None)"

text \<open>
  Modelled from the spec: \<open>lookup_dom_ctx\<close> of lb_domain.h, not part of the sources: the
  same lookup, reporting a failure.
\<close>

definition lookup_dom_ctx :: "sched \<Rightarrow> nat \<Rightarrow> sched \<times> nat option" where
  "lookup_dom_ctx s d =
     (case try_lookup_dom_ctx s d of
        None \<Rightarrow> (scx_bpf_error ''Failed to lookup dom'' s, None)
      | Some dc \<Rightarrow> (s, Some dc))"

text \<open>
  Modelled from the spec: \<open>lb_domain_get\<close> of lb_domain.h, not part of the sources: the
  record that holds a domain's cpumasks (spec 3: CPU membership mask, greedy submask,
  node-local submask), or NULL.
\<close>

definition lb_domain_get :: "sched \<Rightarrow> nat \<Rightarrow> lb_domain option" where
  "lb_domain_get s d = lb_domains s d"

text \<open>
  Modelled from the spec: \<open>dom_min_vruntime\<close> of lb_domain.h, not part of the sources:
  the domain's minimum virtual runtime baseline (spec 3, 4.2).
\<close>

definition dom_min_vruntime :: "sched \<Rightarrow> nat \<Rightarrow> nat" where
  "dom_min_vruntime s dc = min_vruntime (dom_ctxs s dc)"

text \<open>
  Modelled from the spec: \<open>dom_xfer_task\<close> of lb_domain.h, not part of the sources. The
  spec (4.5) has it transfer the task's in-flight runtime and duty-cycle accounting to
  the new domain; the accounting itself is outside this model, so the call is recorded.
\<close>

definition dom_xfer_task :: "nat \<Rightarrow> nat \<Rightarrow> nat \<Rightarrow> sched \<Rightarrow> sched" where
  "dom_xfer_task p new_dom_id t s = s\<lparr>xfers := xfers s @ [(p, new_dom_id, t)]\<rparr>"

definition upd_taskc :: "nat \<Rightarrow> (task_ctx \<Rightarrow> task_ctx) \<Rightarrow> sched \<Rightarrow> sched" where
  "upd_taskc p f s = s\<lparr>task_ctxs := (task_ctxs s)(p := f (task_ctxs s p))\<rparr>"

definition upd_proc :: "nat \<Rightarrow> (task_struct \<Rightarrow> task_struct) \<Rightarrow> sched \<Rightarrow> sched" where
  "upd_proc p f s = s\<lparr>procs := (procs s)(p := f (procs s p))\<rparr>"

definition cpu_to_dom_id :: "config \<Rightarrow> int \<Rightarrow> nat" where
  "cpu_to_dom_id cfg cpu =
     (if 0 \<le> cpu \<and> nat cpu < MAX_CPUS cfg then cpu_dom_id_map cfg (nat cpu)
      else MAX_DOMS cfg)"

definition is_offline_cpu :: "config \<Rightarrow> int \<Rightarrow> bool" where
  "is_offline_cpu cfg cpu = (cpu_to_dom_id cfg cpu > MAX_DOMS cfg)"

definition lookup_pcpu_ctx :: "config \<Rightarrow> sched \<Rightarrow> int \<Rightarrow> sched \<times> bool" where
  "lookup_pcpu_ctx cfg s cpu =
     (if 0 \<le> cpu \<and> nat cpu < MAX_CPUS cfg then (s, True)
      else (scx_bpf_error ''Failed to lookup pcpu ctx'' s, False))"

section \<open>Tuning input: \<open>refresh_tune_params\<close>\<close>

definition set_or_clear :: "bool \<Rightarrow> int \<Rightarrow> cpumask option \<Rightarrow> cpumask option" where
  "set_or_clear b cpu m = (if b then map_option (insert cpu) m else map_option (\<lambda>x. x - {cpu}) m)"

text \<open>The body of the loop over the CPUs, for an online CPU whose domain was found.\<close>

definition refresh_cpu :: "int \<Rightarrow> nat \<Rightarrow> lb_domain \<Rightarrow> sched \<Rightarrow> sched" where
  "refresh_cpu cpu dom_id lbd s =
     (let dg = cpu \<in> ti_direct_greedy_cpumask (tune_input s);
          kg = cpu \<in> ti_kick_greedy_cpumask (tune_input s)
      in s\<lparr>direct_greedy_cpumask := set_or_clear dg cpu (direct_greedy_cpumask s),
            lb_domains := (lb_domains s)(dom_id \<mapsto>
               lbd\<lparr>lbd_direct_greedy_cpumask :=
                      set_or_clear dg cpu (lbd_direct_greedy_cpumask lbd)\<rparr>),
            kick_greedy_cpumask := set_or_clear kg cpu (kick_greedy_cpumask s)\<rparr>)"

fun refresh_loop :: "config \<Rightarrow> int list \<Rightarrow> sched \<Rightarrow> sched" where
  "refresh_loop cfg [] s = s"
| "refresh_loop cfg (cpu # cpus) s =
     (let dom_id = cpu_to_dom_id cfg cpu in
      if is_offline_cpu cfg cpu then refresh_loop cfg cpus s
      else (case lb_domain_get s dom_id of
              None \<Rightarrow> s
            | Some lbd \<Rightarrow> refresh_loop cfg cpus (refresh_cpu cpu dom_id lbd s)))"

definition refresh_tune_params :: "config \<Rightarrow> sched \<Rightarrow> sched" where
  "refresh_tune_params cfg s =
     (if tune_params_gen s = gen (tune_input s) then s
      else refresh_loop cfg (map int [0..<nr_cpu_ids cfg])
             (s\<lparr>tune_params_gen := gen (tune_input s), slice_ns := ti_slice_ns (tune_input s)\<rparr>))"

section \<open>Domain migration: \<open>task_set_domain\<close>\<close>

text \<open>
  The body of the \<open>if (bpf_cpumask_intersects(...))\<close> block of \<open>task_set_domain\<close>.
\<close>

definition set_domain_update ::
  "config \<Rightarrow> sched \<Rightarrow> nat \<Rightarrow> nat \<Rightarrow> nat \<Rightarrow> cpumask \<Rightarrow> bool \<Rightarrow> sched" where
  "set_domain_update cfg s p new_dom_id new_domc d_cpumask init_dsq_vtime =
     (let t = now s;
          s1 = (if \<not> init_dsq_vtime then dom_xfer_task p new_dom_id t s else s);
          s2 = upd_taskc p (\<lambda>tc. tc\<lparr>target_dom := new_dom_id, domc := Some new_domc\<rparr>) s1;
          s3 = upd_proc p (\<lambda>ts. ts\<lparr>dsq_vtime := dom_min_vruntime s2 new_domc\<rparr>) s2;
          s4 = upd_taskc p
                 (\<lambda>tc. tc\<lparr>deadline := init_vtime cfg (dsq_vtime (procs s3 p)) (weight tc)\<rparr>) s3
      in s4\<lparr>task_cpumasks := (task_cpumasks s4)(p := d_cpumask \<inter> cpus_ptr (procs s4 p))\<rparr>)"

definition task_set_domain :: "config \<Rightarrow> sched \<Rightarrow> nat \<Rightarrow> nat \<Rightarrow> bool \<Rightarrow> bool \<times> sched" where
  "task_set_domain cfg s p new_dom_id init_dsq_vtime =
     (case lookup_task_ctx_mask s p of (s1, taskc, t_cpumask) \<Rightarrow>
        if \<not> taskc \<or> \<not> t_cpumask
        then (False, scx_bpf_error ''Failed to look up task cpumask'' s1)
        else
          (let old_dom_id = target_dom (task_ctxs s1 p) in
           case lookup_dom_ctx s1 old_dom_id of
             (s2, None) \<Rightarrow> (False, s2)
           | (s2, Some old_domc) \<Rightarrow>
               if new_dom_id = NO_DOM_FOUND cfg then
                 (\<not> SCX_TASK_QUEUED (procs s2 p),
                  s2\<lparr>task_cpumasks := (task_cpumasks s2)(p := {})\<rparr>)
               else
                 (case try_lookup_dom_ctx s2 new_dom_id of
                    None \<Rightarrow> (False, s2)
                  | Some new_domc \<Rightarrow>
                      (case lb_domain_get s2 new_dom_id of
                         None \<Rightarrow> (False, scx_bpf_error ''no lb_domain for dom'' s2)
                       | Some new_lb_domain \<Rightarrow>
                           (case lbd_cpumask new_lb_domain of
                              None \<Rightarrow> (False, scx_bpf_error ''Failed to get dom cpumask kptr'' s2)
                            | Some d_cpumask \<Rightarrow>
                                (let s3 =
                                   (if bpf_cpumask_intersects d_cpumask (cpus_ptr (procs s2 p))
                                    then set_domain_update cfg s2 p new_dom_id new_domc
                                           d_cpumask init_dsq_vtime
                                    else s2)
                                 in (target_dom (task_ctxs s3 p) = new_dom_id, s3)))))))"

section \<open>Enqueue: \<open>rusty_enqueue\<close>\<close>

definition ENOENT :: int where "ENOENT = 2"

definition EBUSY :: int where "EBUSY = 16"

definition bpf_cpumask_any_distribute :: "config \<Rightarrow> cpumask \<Rightarrow> int" where
  "bpf_cpumask_any_distribute cfg m = any_distribute cfg m"

definition bpf_cpumask_any_and_distribute :: "config \<Rightarrow> cpumask \<Rightarrow> cpumask \<Rightarrow> int" where
  "bpf_cpumask_any_and_distribute cfg a b = any_distribute cfg (a \<inter> b)"

definition scx_bpf_dsq_insert :: "nat \<Rightarrow> dsq_id \<Rightarrow> nat \<Rightarrow> nat \<Rightarrow> sched \<Rightarrow> sched" where
  "scx_bpf_dsq_insert p q slice_len enq_flags s =
     s\<lparr>dsqs := (dsqs s)(q := dsqs s q @
          [\<lparr>e_task = p, e_slice = slice_len, e_vtime = None, e_flags = enq_flags\<rparr>])\<rparr>"

definition vtime_le :: "dsq_entry \<Rightarrow> dsq_entry \<Rightarrow> bool" where
  "vtime_le x e = (case (e_vtime x, e_vtime e) of (Some a, Some b) \<Rightarrow> a \<le> b | _ \<Rightarrow> True)"

fun insert_vtime :: "dsq_entry \<Rightarrow> dsq_entry list \<Rightarrow> dsq_entry list" where
  "insert_vtime e [] = [e]"
| "insert_vtime e (x # xs) = (if vtime_le x e then x # insert_vtime e xs else e # x # xs)"

text \<open>
  Modelled from the spec: \<open>place_task_dl\<close> of deadline.h, which is not part of the
  sources. The spec (4.2, 4.4) has the task inserted into its domain's queue ordered by
  ascending virtual time, ties in enqueue order; the key is the task's deadline.
\<close>

definition place_task_dl :: "nat \<Rightarrow> nat \<Rightarrow> sched \<Rightarrow> sched" where
  "place_task_dl p enq_flags s =
     (let q = DSQ_DOM (target_dom (task_ctxs s p));
          e = \<lparr>e_task = p, e_slice = slice_ns s, e_vtime = Some (deadline (task_ctxs s p)),
               e_flags = enq_flags\<rparr>
      in s\<lparr>dsqs := (dsqs s)(q := insert_vtime e (dsqs s q))\<rparr>)"

text \<open>
  \<open>rusty_enqueue\<close> from the label \<open>dom_queue\<close> on; \<open>cpu\<close> is the value the local
  variable of that name has on arrival.
\<close>

definition enqueue_dom_queue :: "config \<Rightarrow> nat \<Rightarrow> nat \<Rightarrow> int \<Rightarrow> sched \<Rightarrow> sched" where
  "enqueue_dom_queue cfg p enq_flags cpu s =
     (let s1 = (if fifo_sched cfg
                then scx_bpf_dsq_insert p (DSQ_DOM (target_dom (task_ctxs s p))) (slice_ns s)
                       enq_flags s
                else place_task_dl p enq_flags s)
      in if all_cpus (task_ctxs s1 p) then
           (let cpu1 = (case kick_greedy_cpumask s1 of
                          None \<Rightarrow> cpu
                        | Some kg \<Rightarrow>
                            (let c = bpf_cpumask_any_and_distribute cfg kg (idle_cpumask s1)
                             in if c \<ge> int (nr_cpu_ids cfg) then - EBUSY else c))
            in if cpu1 \<ge> 0
               then scx_bpf_kick_cpu cpu1 SCX_KICK_IDLE (stat_add RUSTY_STAT_KICK_GREEDY 1 s1)
               else s1)
         else s1)"

definition rusty_enqueue :: "config \<Rightarrow> sched \<Rightarrow> nat \<Rightarrow> nat \<Rightarrow> sched" where
  "rusty_enqueue cfg s p enq_flags =
     (case lookup_task_ctx_mask s p of (s1, taskc, p_cpumask) \<Rightarrow>
        if \<not> taskc \<or> \<not> p_cpumask then s1
        else
          (case domc (task_ctxs s1 p) of
             None \<Rightarrow> s1
           | Some domc_id \<Rightarrow>
               (case (if domc_id \<noteq> target_dom (task_ctxs s1 p)
                      then task_set_domain cfg s1 p domc_id False
                      else (False, s1)) of
                  (migrated, s2) \<Rightarrow>
                    if migrated then
                      (let s3 = stat_add RUSTY_STAT_LOAD_BALANCE 1 s2;
                           s4 = upd_taskc p (\<lambda>tc. tc\<lparr>dispatch_local := False\<rparr>) s3;
                           cpu = bpf_cpumask_any_distribute cfg (task_cpumasks s4 p);
                           s5 = (if cpu < int (nr_cpu_ids cfg)
                                 then scx_bpf_kick_cpu cpu KICK_NONE s4 else s4)
                       in enqueue_dom_queue cfg p enq_flags cpu s5)
                    else if dispatch_local (task_ctxs s2 p) then
                      scx_bpf_dsq_insert p (DSQ_LOCAL (task_cpu (procs s2 p))) (slice_ns s2)
                        enq_flags (upd_taskc p (\<lambda>tc. tc\<lparr>dispatch_local := False\<rparr>) s2)
                    else if task_cpu (procs s2 p) \<notin> task_cpumasks s2 p then
                      (let cpu = bpf_cpumask_any_distribute cfg (task_cpumasks s2 p);
                           s3 = (if cpu < int (nr_cpu_ids cfg)
                                 then scx_bpf_kick_cpu cpu KICK_NONE s2 else s2);
                           s4 = stat_add RUSTY_STAT_REPATRIATE 1 s3
                       in enqueue_dom_queue cfg p enq_flags cpu s4)
                    else enqueue_dom_queue cfg p enq_flags (- 1) s2)))"

section \<open>Dispatch: \<open>rusty_dispatch\<close>\<close>

text \<open>
  \<open>scx_bpf_dsq_move_to_local\<close> moves the first task of a domain's queue that may run
  on the dispatching CPU to that CPU's local queue and says whether it moved one. Each
  call is logged with its call site.
\<close>

definition scx_bpf_dsq_move_to_local :: "site \<Rightarrow> nat \<Rightarrow> int \<Rightarrow> sched \<Rightarrow> bool \<times> sched" where
  "scx_bpf_dsq_move_to_local st dom_id cpu s =
     (let s1 = s\<lparr>moves := moves s @ [(st, dom_id)]\<rparr> in
      case find (\<lambda>e. cpu \<in> cpus_ptr (procs s1 (e_task e))) (dsqs s1 (DSQ_DOM dom_id)) of
        None \<Rightarrow> (False, s1)
      | Some e \<Rightarrow>
          (True, s1\<lparr>dsqs := (dsqs s1)(DSQ_DOM dom_id := remove1 e (dsqs s1 (DSQ_DOM dom_id)),
                                        DSQ_LOCAL cpu := dsqs s1 (DSQ_LOCAL cpu) @ [e])\<rparr>))"

definition scx_bpf_dsq_nr_queued :: "sched \<Rightarrow> dsq_id \<Rightarrow> nat" where
  "scx_bpf_dsq_nr_queued s q = length (dsqs s q)"

text \<open>\<open>pcpuc->dom_rr_cur++ % nr_doms\<close>: the cursor is a \<open>u32\<close> and wraps.\<close>

definition rr_next :: "config \<Rightarrow> int \<Rightarrow> sched \<Rightarrow> nat \<times> sched" where
  "rr_next cfg cpu s =
     (let cur = dom_rr_cur (pcpu_ctxs s cpu)
      in (cur mod nr_doms cfg,
          s\<lparr>pcpu_ctxs := (pcpu_ctxs s)(cpu :=
               (pcpu_ctxs s cpu)\<lparr>dom_rr_cur := (cur + 1) mod 2 ^ 32\<rparr>)\<rparr>))"

text \<open>\<open>nr_doms - 1\<close> on \<open>u32\<close>.\<close>

definition u32_dec :: "nat \<Rightarrow> nat" where
  "u32_dec n = (if n = 0 then 2 ^ 32 - 1 else n - 1)"

text \<open>
  The two stealing loops; the first argument after the configuration counts the
  iterations \<open>bpf_repeat\<close> has left. The result says whether the loop stole a task, in
  which case \<open>rusty_dispatch\<close> returns.
\<close>

fun steal_same_node :: "config \<Rightarrow> nat \<Rightarrow> int \<Rightarrow> nat \<Rightarrow> nat \<Rightarrow> sched \<Rightarrow> bool \<times> sched" where
  "steal_same_node cfg 0 cpu curr_dom my_node s = (False, s)"
| "steal_same_node cfg (Suc n) cpu curr_dom my_node s =
     (case rr_next cfg cpu s of (dom_id, s1) \<Rightarrow>
        if dom_id = curr_dom \<or> dom_node_id cfg dom_id \<noteq> my_node
        then steal_same_node cfg n cpu curr_dom my_node s1
        else (case scx_bpf_dsq_move_to_local SAME_NODE dom_id cpu s1 of (moved, s2) \<Rightarrow>
                if moved then (True, stat_add RUSTY_STAT_GREEDY_LOCAL 1 s2)
                else steal_same_node cfg n cpu curr_dom my_node s2))"

fun steal_cross_node :: "config \<Rightarrow> nat \<Rightarrow> int \<Rightarrow> nat \<Rightarrow> nat \<Rightarrow> sched \<Rightarrow> bool \<times> sched" where
  "steal_cross_node cfg 0 cpu curr_dom my_node s = (False, s)"
| "steal_cross_node cfg (Suc n) cpu curr_dom my_node s =
     (case rr_next cfg cpu s of (dom_id, s1) \<Rightarrow>
        if dom_node_id cfg dom_id = my_node \<or> dom_id = curr_dom
           \<or> scx_bpf_dsq_nr_queued s1 (DSQ_DOM dom_id) \<ge> greedy_threshold_x_numa cfg
        then steal_cross_node cfg n cpu curr_dom my_node s1
        else (case scx_bpf_dsq_move_to_local CROSS_NODE dom_id cpu s1 of (moved, s2) \<Rightarrow>
                if moved then (True, stat_add RUSTY_STAT_GREEDY_XNUMA 1 s2)
                else steal_cross_node cfg n cpu curr_dom my_node s2))"

definition rusty_dispatch :: "config \<Rightarrow> sched \<Rightarrow> int \<Rightarrow> sched" where
  "rusty_dispatch cfg s cpu =
     (let curr_dom = cpu_to_dom_id cfg cpu in
      if is_offline_cpu cfg cpu then s
      else
        (case scx_bpf_dsq_move_to_local OWN_DOM curr_dom cpu s of (moved, s1) \<Rightarrow>
           if moved then stat_add RUSTY_STAT_DSQ_DISPATCH 1 s1
           else if greedy_threshold cfg = 0 then s1
           else
             (case lookup_pcpu_ctx cfg s1 cpu of (s2, pcpuc) \<Rightarrow>
                if \<not> pcpuc then s2
                else
                  (let my_node = dom_node_id cfg curr_dom in
                   case steal_same_node cfg (u32_dec (nr_doms cfg)) cpu curr_dom my_node s2 of
                     (stolen, s3) \<Rightarrow>
                       if stolen then s3
                       else if greedy_threshold_x_numa cfg = 0 \<or> nr_nodes cfg = 1 then s3
                       else snd (steal_cross_node cfg (u32_dec (nr_doms cfg)) cpu curr_dom
                                   my_node s3)))))"

section \<open>Domain selection: \<open>task_pick_domain\<close>\<close>

definition cpumask_intersects_domain :: "sched \<Rightarrow> cpumask \<Rightarrow> nat \<Rightarrow> bool" where
  "cpumask_intersects_domain s cpumask dom_id =
     (case lb_domain_get s dom_id of
        None \<Rightarrow> False
      | Some lbd \<Rightarrow>
          (case lbd_cpumask lbd of
             None \<Rightarrow> False
           | Some dmask \<Rightarrow> bpf_cpumask_intersects cpumask dmask))"

definition node_dom_mask :: "config \<Rightarrow> nat \<Rightarrow> 64 word" where
  "node_dom_mask cfg node_id =
     fold (\<lambda>dom_id mask. if dom_node_id cfg dom_id \<noteq> node_id then mask
                          else mask OR push_bit dom_id 1)
       [0..<nr_doms cfg] 0"

definition task_set_preferred_mempolicy_dom_mask :: "config \<Rightarrow> nat \<Rightarrow> sched \<Rightarrow> sched" where
  "task_set_preferred_mempolicy_dom_mask cfg p s =
     (let s1 = upd_taskc p (\<lambda>tc. tc\<lparr>preferred_dom_mask := 0\<rparr>) s in
      case lookup_task_bpfmask s1 p of (s2, p_cpumask) \<Rightarrow>
        (case task_mempolicy (procs s2 p) of
           None \<Rightarrow> s2
         | Some mp \<Rightarrow>
             if \<not> mempolicy_affinity cfg \<or> \<not> p_cpumask then s2
             else if \<not> mpol_mode_match mp then s2
             else if home_node mp \<ge> 0 then
               upd_taskc p (\<lambda>tc. tc\<lparr>preferred_dom_mask := node_dom_mask cfg (nat (home_node mp))\<rparr>) s2
             else
               (case nodes_bits mp of
                  None \<Rightarrow> s2
                | Some val \<Rightarrow>
                    fold (\<lambda>node_id t. if \<not> bit val node_id then t
                                       else upd_taskc p (\<lambda>tc. tc\<lparr>preferred_dom_mask :=
                                              preferred_dom_mask tc OR node_dom_mask cfg node_id\<rparr>) t)
                      [0..<nr_nodes cfg] s2)))"

text \<open>\<open>dom = (dom + 1) % nr_doms\<close>, the sum being a \<open>u32\<close> sum.\<close>

definition next_dom :: "config \<Rightarrow> nat \<Rightarrow> nat" where
  "next_dom cfg dom_id = ((dom_id + 1) mod 2 ^ 32) mod nr_doms cfg"

text \<open>
  The \<open>bpf_repeat(nr_doms)\<close> loop of \<open>task_pick_domain\<close>: iterations left, the local
  variables \<open>dom\<close>, \<open>first_dom\<close> and \<open>preferred_dom\<close>, and the state.
\<close>

fun pick_loop ::
  "config \<Rightarrow> nat \<Rightarrow> nat \<Rightarrow> cpumask \<Rightarrow> nat \<Rightarrow> nat \<Rightarrow> nat \<Rightarrow> sched \<Rightarrow> nat \<times> nat \<times> sched" where
  "pick_loop cfg 0 p cpumask dom_id first_dom preferred_dom s = (first_dom, preferred_dom, s)"
| "pick_loop cfg (Suc n) p cpumask dom_id first_dom preferred_dom s =
     (let dom1 = next_dom cfg dom_id in
      if cpumask_intersects_domain s cpumask dom1 then
        (let s1 = upd_taskc p (\<lambda>tc. tc\<lparr>dom_mask := dom_mask tc OR push_bit dom1 1\<rparr>) s;
             first1 = (if first_dom = NO_DOM_FOUND cfg then dom1 else first_dom)
         in if preferred_dom_mask (task_ctxs s1 p) = 0
            then pick_loop cfg n p cpumask dom1 first1 preferred_dom s1
            else
              (let pref1 = (if push_bit dom1 1 AND preferred_dom_mask (task_ctxs s1 p) \<noteq> 0
                               \<and> preferred_dom = NO_DOM_FOUND cfg
                            then dom1 else preferred_dom)
               in pick_loop cfg n p cpumask dom1 first1 pref1 s1))
      else pick_loop cfg n p cpumask dom1 first_dom preferred_dom s)"

definition task_pick_domain :: "config \<Rightarrow> sched \<Rightarrow> nat \<Rightarrow> cpumask \<Rightarrow> nat \<times> sched" where
  "task_pick_domain cfg s p cpumask =
     (let cpu = this_cpu s in
      if cpu < 0 \<or> cpu \<ge> int (MAX_CPUS cfg) then (NO_DOM_FOUND cfg, s)
      else
        (let s1 = upd_taskc p (\<lambda>tc. tc\<lparr>dom_mask := 0\<rparr>) s;
             dom0 = dom_rr_cur (pcpu_ctxs s1 cpu);
             s2 = s1\<lparr>pcpu_ctxs := (pcpu_ctxs s1)(cpu :=
                        (pcpu_ctxs s1 cpu)\<lparr>dom_rr_cur := (dom0 + 1) mod 2 ^ 32\<rparr>)\<rparr>;
             s3 = task_set_preferred_mempolicy_dom_mask cfg p s2
         in case pick_loop cfg (nr_doms cfg) p cpumask dom0 (NO_DOM_FOUND cfg)
                   (NO_DOM_FOUND cfg) s3 of
              (first_dom, preferred_dom, s4) \<Rightarrow>
                (if preferred_dom \<noteq> NO_DOM_FOUND cfg then preferred_dom else first_dom, s4)))"

definition task_pick_and_set_domain ::
  "config \<Rightarrow> sched \<Rightarrow> nat \<Rightarrow> cpumask \<Rightarrow> bool \<Rightarrow> sched" where
  "task_pick_and_set_domain cfg s p cpumask init_dsq_vtime =
     (case (if nr_doms cfg > 1 then task_pick_domain cfg s p cpumask else (0, s)) of
        (dom_id, s1) \<Rightarrow>
          (case task_set_domain cfg s1 p dom_id init_dsq_vtime of (ok, s2) \<Rightarrow>
             if \<not> ok then scx_bpf_error ''Failed to set dom'' s2 else s2))"

definition bpf_cpumask_subset :: "cpumask \<Rightarrow> cpumask \<Rightarrow> bool" where
  "bpf_cpumask_subset a b = (a \<subseteq> b)"

definition rusty_set_cpumask :: "config \<Rightarrow> sched \<Rightarrow> nat \<Rightarrow> cpumask \<Rightarrow> sched" where
  "rusty_set_cpumask cfg s p cpumask =
     (case lookup_task_ctx s p of (s1, taskc) \<Rightarrow>
        if \<not> taskc then s1
        else
          (let s2 = task_pick_and_set_domain cfg s1 p cpumask False in
           case all_cpumask s2 of
             None \<Rightarrow> s2
           | Some acm \<Rightarrow> upd_taskc p (\<lambda>tc. tc\<lparr>all_cpus := bpf_cpumask_subset acm cpumask\<rparr>) s2))"

text \<open>
  \<open>rusty_init_task\<close>. The three calls that can fail outside the file
  (\<open>sdt_task_alloc\<close>, \<open>bpf_map_update_elem\<close>, \<open>create_save_cpumask\<close>) are given by
  their outcomes: whether the allocation succeeded, and the two return codes. The new
  context is the compound literal of the source: every field zero except the four it
  names (\<open>pid\<close> is not modelled), with \<open>dom_active_tasks_gen = -1\<close> as a \<open>u32\<close>.
\<close>

definition new_task_ctx :: "nat \<Rightarrow> task_ctx" where
  "new_task_ctx t =
     \<lparr>dom_mask = 0, preferred_dom_mask = 0, domc = None, target_dom = 0, all_cpus = False,
      dispatch_local = False, runnable = False, is_kworker = False, weight = 0,
      dom_active_tasks_gen = 2 ^ 32 - 1, sum_runtime = 0, deadline = 0, last_run_at = 0,
      last_woke_at = t, waker_freq = 0, last_blocked_at = t, blocked_freq = 0\<rparr>"

definition rusty_init_task :: "config \<Rightarrow> sched \<Rightarrow> nat \<Rightarrow> bool \<Rightarrow> int \<Rightarrow> int \<Rightarrow> int \<times> sched" where
  "rusty_init_task cfg s p alloc_ok update_ret create_ret =
     (let t = now s in
      if \<not> alloc_ok then (- 12, s)
      else
        (let s1 = s\<lparr>task_ctxs := (task_ctxs s)(p := new_task_ctx t),
                    task_ctx_present := insert p (task_ctx_present s)\<rparr>
         in if update_ret \<noteq> 0
            then (update_ret, s1\<lparr>task_ctx_present := task_ctx_present s1 - {p}\<rparr>)
            else
              (let s2 = s1\<lparr>task_masks := (task_masks s1)(p \<mapsto> False)\<rparr> in
               if create_ret \<noteq> 0
               then (create_ret, s2\<lparr>task_masks := (task_masks s2)(p := None),
                                      task_ctx_present := task_ctx_present s2 - {p}\<rparr>)
               else
                 (let s3 = s2\<lparr>task_masks := (task_masks s2)(p \<mapsto> True),
                             task_cpumasks := (task_cpumasks s2)(p := {})\<rparr>
                  in (0, task_pick_and_set_domain cfg s3 p (cpus_ptr (procs s3 p)) True)))))"

section \<open>Accounting hooks\<close>

text \<open>
  \<open>task_load_adj\<close>: the \<open>ravg_accumulate\<close> call on the task's duty cycle is recorded.
\<close>

definition task_load_adj :: "nat \<Rightarrow> nat \<Rightarrow> bool \<Rightarrow> sched \<Rightarrow> sched" where
  "task_load_adj p t rn s =
     (upd_taskc p (\<lambda>tc. tc\<lparr>runnable := rn\<rparr>) s)\<lparr>load_adjs := load_adjs s @ [(p, t, rn)]\<rparr>"

text \<open>
  Modelled from the spec: \<open>dom_dcycle_adj\<close> of lb_domain.h, not part of the sources. It
  adjusts the domain's duty-cycle accumulator (spec 3); the accumulator is outside this
  model, so the call is recorded.
\<close>

definition dom_dcycle_adj :: "nat option \<Rightarrow> nat \<Rightarrow> nat \<Rightarrow> bool \<Rightarrow> sched \<Rightarrow> sched" where
  "dom_dcycle_adj dc w t rn s = s\<lparr>dcycle_adjs := dcycle_adjs s @ [(dc, w, t, rn)]\<rparr>"

text \<open>\<open>now - then\<close> on \<open>u64\<close>.\<close>

definition u64_sub :: "nat \<Rightarrow> nat \<Rightarrow> nat" where
  "u64_sub a b = (if b \<le> a then a - b else a + 2 ^ 64 - b)"

definition rusty_runnable :: "config \<Rightarrow> sched \<Rightarrow> nat \<Rightarrow> nat \<Rightarrow> sched" where
  "rusty_runnable cfg s p enq_flags =
     (let t = now s in
      case lookup_task_ctx s p of (s1, wakee_ctx) \<Rightarrow>
        if \<not> wakee_ctx then s1
        else
          (let s2 = upd_taskc p (\<lambda>tc. tc\<lparr>is_kworker := PF_WQ_WORKER (procs s1 p)\<rparr>) s1;
               s3 = task_load_adj p t True s2;
               s4 = dom_dcycle_adj (domc (task_ctxs s3 p)) (weight (task_ctxs s3 p)) t True s3
           in if fifo_sched cfg then s4
              else
                (let s5 = upd_taskc p (\<lambda>tc. tc\<lparr>sum_runtime := 0\<rparr>) s4;
                     waker = current s5
                 in if \<not> try_lookup_task_ctx s5 waker then s5
                    else
                      (let interval = u64_sub t (last_woke_at (task_ctxs s5 waker))
                       in upd_taskc waker
                            (\<lambda>tc. tc\<lparr>waker_freq := update_freq cfg (waker_freq tc) interval,
                                      last_woke_at := t\<rparr>) s5))))"

text \<open>
  The block of \<open>rusty_running\<close> that records the task in the domain's ring of active
  tasks. \<open>__sync_fetch_and_add\<close> returns the old write cursor and adds one to it (a
  \<open>u64\<close>); the result is false when the function returns from the bounds check.
\<close>

definition record_active :: "config \<Rightarrow> nat \<Rightarrow> nat \<Rightarrow> nat \<Rightarrow> sched \<Rightarrow> bool \<times> sched" where
  "record_active cfg p d dap_gen s =
     (let w = write_idx (dom_ctxs s d);
          s1 = s\<lparr>dom_ctxs := (dom_ctxs s)(d := (dom_ctxs s d)\<lparr>write_idx := w + 1\<rparr>)\<rparr>;
          idx = unat w mod MAX_DOM_ACTIVE_TPTRS cfg
      in if idx \<ge> MAX_DOM_ACTIVE_TPTRS cfg
         then (False, scx_bpf_error ''dom_active_tasks out of bounds indexing'' s1)
         else
           (True,
            upd_taskc p (\<lambda>tc. tc\<lparr>dom_active_tasks_gen := dap_gen\<rparr>)
              (s1\<lparr>dom_ctxs := (dom_ctxs s1)(d :=
                     (dom_ctxs s1 d)\<lparr>active_tasks := (active_tasks (dom_ctxs s1 d))(idx := p)\<rparr>)\<rparr>)))"

definition rusty_running :: "config \<Rightarrow> deadline_ops \<Rightarrow> sched \<Rightarrow> nat \<Rightarrow> sched" where
  "rusty_running cfg ops s p =
     (case lookup_task_ctx s p of (s1, taskc) \<Rightarrow>
        if \<not> taskc then s1
        else
          (case domc (task_ctxs s1 p) of
             None \<Rightarrow> scx_bpf_error ''Invalid dom ID'' s1
           | Some d \<Rightarrow>
               (let dap_gen = active_gen (dom_ctxs s1 d) mod 2 ^ 32 in
                case (if dom_active_tasks_gen (task_ctxs s1 p) \<noteq> dap_gen
                      then record_active cfg p d dap_gen s1 else (True, s1)) of
                  (in_bounds, s2) \<Rightarrow>
                    if \<not> in_bounds then s2
                    else if fifo_sched cfg then s2
                    else
                      (let s3 = running_update_vtime ops p d s2
                       in upd_taskc p (\<lambda>tc. tc\<lparr>last_run_at := now s3\<rparr>) s3))))"

definition rusty_stopping :: "config \<Rightarrow> deadline_ops \<Rightarrow> sched \<Rightarrow> nat \<Rightarrow> bool \<Rightarrow> sched" where
  "rusty_stopping cfg ops s p rn =
     (if fifo_sched cfg then s
      else
        (case lookup_task_ctx s p of (s1, taskc) \<Rightarrow>
           if \<not> taskc then s1
           else
             (case domc (task_ctxs s1 p) of
                None \<Rightarrow> s1
              | Some d \<Rightarrow> stopping_update_vtime ops p d s1)))"

definition rusty_quiescent :: "config \<Rightarrow> sched \<Rightarrow> nat \<Rightarrow> nat \<Rightarrow> sched" where
  "rusty_quiescent cfg s p deq_flags =
     (let t = now s in
      case lookup_task_ctx s p of (s1, taskc) \<Rightarrow>
        if \<not> taskc then s1
        else
          (case domc (task_ctxs s1 p) of
             None \<Rightarrow> s1
           | Some d \<Rightarrow>
               (let s2 = task_load_adj p t False s1;
                    s3 = dom_dcycle_adj (Some d) (weight (task_ctxs s2 p)) t False s2
                in if fifo_sched cfg then s3
                   else
                     (let interval = u64_sub t (last_blocked_at (task_ctxs s3 p))
                      in upd_taskc p
                           (\<lambda>tc. tc\<lparr>blocked_freq := update_freq cfg (blocked_freq tc) interval,
                                     last_blocked_at := t\<rparr>) s3))))"

definition rusty_set_weight :: "sched \<Rightarrow> nat \<Rightarrow> nat \<Rightarrow> sched" where
  "rusty_set_weight s p w =
     (case lookup_task_ctx s p of (s1, taskc) \<Rightarrow>
        if \<not> taskc then s1 else upd_taskc p (\<lambda>tc. tc\<lparr>weight := w\<rparr>) s1)"

section \<open>CPU selection: \<open>rusty_select_cpu\<close>\<close>

text \<open>
  The kernel's idle tracking: \<open>scx_bpf_test_and_clear_cpu_idle\<close> claims a CPU that is
  idle; \<open>scx_bpf_pick_idle_cpu\<close> claims one of the idle CPUs of a mask (of the CPUs
  whose whole core is idle when \<open>SCX_PICK_IDLE_CORE\<close> is given) or returns
  \<open>-EBUSY\<close>.
\<close>

definition scx_bpf_test_and_clear_cpu_idle :: "int \<Rightarrow> sched \<Rightarrow> bool \<times> sched" where
  "scx_bpf_test_and_clear_cpu_idle cpu s =
     (if cpu \<in> idle_cpumask s
      then (True, s\<lparr>idle_cpumask := idle_cpumask s - {cpu},
                     idle_smtmask := idle_smtmask s - {cpu}\<rparr>)
      else (False, s))"

definition scx_bpf_pick_idle_cpu :: "config \<Rightarrow> cpumask \<Rightarrow> bool \<Rightarrow> sched \<Rightarrow> int \<times> sched" where
  "scx_bpf_pick_idle_cpu cfg m idle_core s =
     (let cands = m \<inter> (if idle_core then idle_smtmask s else idle_cpumask s) in
      if cands = {} then (- EBUSY, s)
      else
        (let cpu = pick_idle cfg cands
         in (cpu, s\<lparr>idle_cpumask := idle_cpumask s - {cpu},
                     idle_smtmask := idle_smtmask s - {cpu}\<rparr>)))"

datatype exit = Direct int | Enoent | Fall

text \<open>The labels \<open>direct\<close> and \<open>enoent\<close> of \<open>rusty_select_cpu\<close>.\<close>

definition direct :: "nat \<Rightarrow> int \<Rightarrow> sched \<Rightarrow> int \<times> sched" where
  "direct p cpu s = (cpu, upd_taskc p (\<lambda>tc. tc\<lparr>dispatch_local := True\<rparr>) s)"

definition enoent :: "sched \<Rightarrow> int \<times> sched" where
  "enoent s = (- ENOENT, s)"

definition try_sync_wakeup :: "config \<Rightarrow> sched \<Rightarrow> nat \<Rightarrow> int \<Rightarrow> int \<times> sched" where
  "try_sync_wakeup cfg s p prev_cpu =
     (let cpu = this_cpu s in
      case lookup_pcpu_ctx cfg s cpu of (s1, pcpuc) \<Rightarrow>
        if \<not> pcpuc then (- ENOENT, s1)
        else
          (case lb_domain_get s1 (pcpu_dom_id (pcpu_ctxs s1 cpu)) of
             None \<Rightarrow> (- ENOENT, s1)
           | Some lbd \<Rightarrow>
               (case lbd_cpumask lbd of
                  None \<Rightarrow> (- ENOENT, scx_bpf_error ''Failed to acquire dom cpumask kptr'' s1)
                | Some d_cpumask \<Rightarrow>
                    (let share_llc = prev_cpu \<in> d_cpumask in
                     if share_llc \<and> fst (scx_bpf_test_and_clear_cpu_idle prev_cpu s1)
                     then (prev_cpu, stat_add RUSTY_STAT_SYNC_PREV_IDLE 1
                                       (snd (scx_bpf_test_and_clear_cpu_idle prev_cpu s1)))
                     else
                       (let has_idle = bpf_cpumask_intersects d_cpumask (idle_cpumask s1) in
                        if has_idle \<and> cpu \<in> cpus_ptr (procs s1 p)
                           \<and> \<not> PF_EXITING (procs s1 (current s1))
                           \<and> target_dom (task_ctxs s1 p) < MAX_DOMS cfg
                           \<and> scx_bpf_dsq_nr_queued s1 (DSQ_LOCAL cpu) = 0
                        then (cpu, stat_add RUSTY_STAT_WAKE_SYNC 1 s1)
                        else (- ENOENT, s1))))))"

text \<open>One idle search that ends in \<open>goto direct\<close> with its counter when it finds a CPU.\<close>

definition pick_direct :: "config \<Rightarrow> cpumask \<Rightarrow> bool \<Rightarrow> stat \<Rightarrow> sched \<Rightarrow> exit \<times> sched" where
  "pick_direct cfg m idle_core st s =
     (case scx_bpf_pick_idle_cpu cfg m idle_core s of (cpu, s1) \<Rightarrow>
        if cpu \<ge> 0 then (Direct cpu, stat_add st 1 s1) else (Fall, s1))"

definition or_else :: "exit \<times> sched \<Rightarrow> (sched \<Rightarrow> exit \<times> sched) \<Rightarrow> exit \<times> sched" where
  "or_else r f = (case r of (Fall, s) \<Rightarrow> f s | _ \<Rightarrow> r)"

text \<open>
  The searches among the direct-greedy CPUs at the end of the greedy block: \<open>domc\<close> is
  the previous CPU's domain context (NULL for an offline CPU), \<open>tmp\<close> the mask in
  \<open>tmp_direct_greedy\<close>.
\<close>

definition greedy_search ::
  "config \<Rightarrow> bool \<Rightarrow> nat option \<Rightarrow> lb_domain \<Rightarrow> cpumask \<Rightarrow> sched \<Rightarrow> exit \<times> sched" where
  "greedy_search cfg has_idle_cores dc lbd tmp s =
     (let in_dom = (\<lambda>idle_core t.
            case lbd_direct_greedy_cpumask lbd of
              Some ldg \<Rightarrow> if dc \<noteq> None
                          then pick_direct cfg ldg idle_core RUSTY_STAT_DIRECT_GREEDY t
                          else (Fall, t)
            | None \<Rightarrow> (Fall, t));
          far = (\<lambda>idle_core t.
            if direct_greedy_cpumask t \<noteq> None
            then pick_direct cfg tmp idle_core RUSTY_STAT_DIRECT_GREEDY_FAR t
            else (Fall, t))
      in or_else (or_else (if has_idle_cores then or_else (in_dom True s) (far True)
                           else (Fall, s))
                    (in_dom False))
           (far False))"

definition greedy_block :: "config \<Rightarrow> nat \<Rightarrow> int \<Rightarrow> bool \<Rightarrow> sched \<Rightarrow> exit \<times> sched" where
  "greedy_block cfg p prev_cpu has_idle_cores s =
     (let dom_id = cpu_to_dom_id cfg prev_cpu in
      case (if is_offline_cpu cfg prev_cpu then (s, True, None)
            else (case lookup_dom_ctx s dom_id of (s', r) \<Rightarrow> (s', r \<noteq> None, r))) of
        (s1, found, dc) \<Rightarrow>
          if \<not> found then (Enoent, s1)
          else
            (case lb_domain_get s1 (case dc of None \<Rightarrow> null_domc_id cfg | Some d \<Rightarrow> d) of
               None \<Rightarrow> (Enoent, scx_bpf_error ''Failed to lookup domain map value'' s1)
             | Some lbd \<Rightarrow>
                 (case direct_greedy_cpumask s1 of
                    None \<Rightarrow> (Enoent, scx_bpf_error ''Failed to lookup direct_greedy mask'' s1)
                  | Some tmp_direct_greedy \<Rightarrow>
                      if \<not> direct_greedy_numa cfg \<and> dc \<noteq> None then
                        (case lbd_node_cpumask lbd of
                           None \<Rightarrow> (Enoent, scx_bpf_error ''Failed to lookup node mask'' s1)
                         | Some node_mask \<Rightarrow>
                             (case percpu_bpfmask s1 of
                                None \<Rightarrow>
                                  (Enoent,
                                   scx_bpf_error ''Failed to lookup tmp cpumask''
                                     (scx_bpf_error ''Did not properly initialize singleton'' s1))
                              | Some _ \<Rightarrow>
                                  greedy_search cfg has_idle_cores dc lbd
                                    (node_mask \<inter> tmp_direct_greedy)
                                    (s1\<lparr>percpu_bpfmask :=
                                          Some (node_mask \<inter> tmp_direct_greedy)\<rparr>)))
                      else greedy_search cfg has_idle_cores dc lbd tmp_direct_greedy s1)))"

text \<open>\<open>rusty_select_cpu\<close> after the pinned-task and synchronous-wakeup shortcuts.\<close>

definition select_cpu_search :: "config \<Rightarrow> nat \<Rightarrow> int \<Rightarrow> sched \<Rightarrow> int \<times> sched" where
  "select_cpu_search cfg p prev_cpu s =
     (let has_idle_cores = (idle_smtmask s \<noteq> {});
          prev_domestic = (prev_cpu \<in> task_cpumasks s p);
          claim_prev = (\<lambda>st t. (Direct prev_cpu,
                          stat_add st 1 (snd (scx_bpf_test_and_clear_cpu_idle prev_cpu t))));
          keep_prev =
            (if prev_domestic then
               (if prev_cpu \<in> idle_smtmask s \<and> fst (scx_bpf_test_and_clear_cpu_idle prev_cpu s)
                then claim_prev RUSTY_STAT_PREV_IDLE s else (Fall, s))
             else
               (case direct_greedy_cpumask s of
                  None \<Rightarrow> (Fall, s)
                | Some dg \<Rightarrow>
                    if prev_cpu \<in> dg \<and> prev_cpu \<in> idle_smtmask s
                       \<and> fst (scx_bpf_test_and_clear_cpu_idle prev_cpu s)
                    then claim_prev RUSTY_STAT_GREEDY_IDLE s else (Fall, s)));
          idle_core = (\<lambda>t. if has_idle_cores
                           then pick_direct cfg (task_cpumasks t p) True
                                  RUSTY_STAT_DIRECT_DISPATCH t
                           else (Fall, t));
          prev_idle = (\<lambda>t. if prev_domestic \<and> fst (scx_bpf_test_and_clear_cpu_idle prev_cpu t)
                           then claim_prev RUSTY_STAT_DIRECT_DISPATCH t else (Fall, t));
          any_idle = (\<lambda>t. pick_direct cfg (task_cpumasks t p) False
                            RUSTY_STAT_DIRECT_DISPATCH t);
          greedy = (\<lambda>t. case direct_greedy_cpumask t of
                           None \<Rightarrow> (Fall, t)
                         | Some dg \<Rightarrow>
                             if all_cpus (task_ctxs t p) \<and> dg \<noteq> {}
                             then greedy_block cfg p prev_cpu has_idle_cores t
                             else (Fall, t))
      in case or_else (or_else (or_else (or_else keep_prev idle_core) prev_idle) any_idle)
                greedy of
           (Direct cpu, s1) \<Rightarrow> direct p cpu s1
         | (Enoent, s1) \<Rightarrow> enoent s1
         | (Fall, s1) \<Rightarrow>
             if prev_domestic then (prev_cpu, s1)
             else
               (let cpu = bpf_cpumask_any_distribute cfg (task_cpumasks s1 p)
                in (if cpu \<ge> int (nr_cpu_ids cfg) then prev_cpu else cpu, s1)))"

definition rusty_select_cpu :: "config \<Rightarrow> sched \<Rightarrow> nat \<Rightarrow> int \<Rightarrow> bool \<Rightarrow> int \<times> sched" where
  "rusty_select_cpu cfg s p prev_cpu wake_sync =
     (let s0 = refresh_tune_params cfg s in
      case lookup_task_ctx_mask s0 p of (s1, taskc, p_cpumask) \<Rightarrow>
        if \<not> taskc \<or> \<not> p_cpumask then enoent s1
        else if nr_cpus_allowed (procs s1 p) = 1 then
          direct p prev_cpu
            (if kthreads_local cfg \<and> PF_KTHREAD (procs s1 p)
             then stat_add RUSTY_STAT_DIRECT_DISPATCH 1 s1
             else stat_add RUSTY_STAT_PINNED 1 s1)
        else
          (case (if wake_sync then try_sync_wakeup cfg s1 p prev_cpu else (- 1, s1)) of
             (cpu, s2) \<Rightarrow>
               if wake_sync \<and> cpu \<ge> 0 then direct p cpu s2
               else select_cpu_search cfg p prev_cpu s2))"

section \<open>A four-CPU, two-domain machine\<close>

text \<open>
  The machine of the end-to-end scenario: CPUs 0 and 1 form domain 0, CPUs 2 and 3
  domain 1, on one NUMA node. Task 7 may run on CPUs 0 to 3 and is assigned to domain 0.
\<close>

definition first_cpu :: "cpumask \<Rightarrow> int" where
  "first_cpu m = (if 0 \<in> m then 0 else if 1 \<in> m then 1 else if 2 \<in> m then 2
                  else if 3 \<in> m then 3 else 4)"

definition cfg0 :: config where
  "cfg0 = \<lparr>nr_doms = 2, nr_nodes = 1, nr_cpu_ids = 4, cpu_dom_id_map = (\<lambda>c. if c < 2 then 0 else 1),
            kthreads_local = False, fifo_sched = False, direct_greedy_numa = False,
            mempolicy_affinity = False, greedy_threshold = 1, greedy_threshold_x_numa = 0,
            MAX_CPUS = 4, MAX_DOMS = 64, NO_DOM_FOUND = 64, MAX_DOM_ACTIVE_TPTRS = 8,
            null_domc_id = 0,
            dom_node_id = (\<lambda>d. 0), init_vtime = (\<lambda>v w. v + 100 div (w + 1)),
            update_freq = (\<lambda>f i. (f + i) div 2),
            any_distribute = first_cpu, pick_idle = first_cpu\<rparr>"

definition p0 :: task_struct where
  "p0 = \<lparr>cpus_ptr = {0, 1, 2, 3}, nr_cpus_allowed = 4, PF_KTHREAD = False,
          PF_WQ_WORKER = False, PF_EXITING = False, SCX_TASK_QUEUED = False,
          dsq_vtime = 50, task_cpu = 0, task_mempolicy = None\<rparr>"

definition taskc0 :: task_ctx where
  "taskc0 = \<lparr>dom_mask = 3, preferred_dom_mask = 0, domc = Some 0, target_dom = 0,
              all_cpus = False, dispatch_local = False, runnable = False, is_kworker = False,
              weight = 100, dom_active_tasks_gen = 0, sum_runtime = 0, deadline = 50,
              last_run_at = 0, last_woke_at = 0, waker_freq = 0, last_blocked_at = 0,
              blocked_freq = 0\<rparr>"

definition domc0 :: dom_ctx where
  "domc0 = \<lparr>min_vruntime = 10, active_gen = 1, write_idx = 0, active_tasks = (\<lambda>i. 0)\<rparr>"

definition lb_dom :: "cpumask \<Rightarrow> lb_domain" where
  "lb_dom m = \<lparr>lbd_cpumask = Some m, lbd_direct_greedy_cpumask = Some {},
               lbd_node_cpumask = Some {0, 1, 2, 3}\<rparr>"

definition s0 :: sched where
  "s0 = \<lparr>procs = (\<lambda>t. p0), task_ctxs = (\<lambda>t. taskc0), task_ctx_present = {7},
          task_masks = [7 \<mapsto> True], task_cpumasks = (\<lambda>t. {0, 1}),
          dom_ctxs = (\<lambda>d. domc0), dom_present = {0, 1},
          lb_domains = [0 \<mapsto> lb_dom {0, 1}, 1 \<mapsto> lb_dom {2, 3}],
          pcpu_ctxs = (\<lambda>c. \<lparr>dom_rr_cur = 0, pcpu_dom_id = (if c < 2 then 0 else 1)\<rparr>),
          tune_input = \<lparr>gen = 0, ti_slice_ns = 20, ti_direct_greedy_cpumask = {},
                     ti_kick_greedy_cpumask = {}\<rparr>,
          tune_params_gen = 0, slice_ns = 20, all_cpumask = Some {0, 1, 2, 3},
          direct_greedy_cpumask = Some {}, kick_greedy_cpumask = Some {},
          percpu_bpfmask = Some {}, idle_cpumask = {}, idle_smtmask = {},
          dsqs = (\<lambda>q. []), stats = (\<lambda>st. 0), kicks = [], xfers = [], load_adjs = [],
          dcycle_adjs = [], moves = [],
          errors = [], now = 1000, this_cpu = 0, current = 7\<rparr>"

text \<open>
  The ring scenario: ten tasks start running one after the other on domain 0, whose ring
  has eight slots, in fifo mode.
\<close>

definition ring_cfg :: config where
  "ring_cfg = cfg0\<lparr>fifo_sched := True\<rparr>"

definition ring_s :: sched where
  "ring_s = s0\<lparr>task_ctx_present := {1, 2, 3, 4, 5, 6, 7, 8, 9, 10}\<rparr>"

text \<open>
  Two NUMA nodes with one domain each and a cross-node threshold of 2, with one task
  queued on domain 1 (\<open>s_x\<close>), two (\<open>s_x2\<close>) or a thousand (\<open>s_x1000\<close>); and the
  four-CPU machine with CPU 3 offline (its entry in
  \<open>cpu_dom_id_map\<close> is above \<open>MAX_DOMS\<close>).
\<close>

definition cfg_x :: config where
  "cfg_x = cfg0\<lparr>nr_nodes := 2, dom_node_id := (\<lambda>d. d), greedy_threshold_x_numa := 2\<rparr>"

definition s_x :: sched where
  "s_x = s0\<lparr>dsqs := (\<lambda>q. [])(DSQ_DOM 1 :=
                [\<lparr>e_task = 9, e_slice = 20, e_vtime = Some 5, e_flags = 0\<rparr>])\<rparr>"

definition s_x2 :: sched where
  "s_x2 = s0\<lparr>dsqs := (\<lambda>q. [])(DSQ_DOM 1 :=
                 [\<lparr>e_task = 9, e_slice = 20, e_vtime = Some 5, e_flags = 0\<rparr>,
                  \<lparr>e_task = 8, e_slice = 20, e_vtime = Some 6, e_flags = 0\<rparr>])\<rparr>"

definition s_x1000 :: sched where
  "s_x1000 = s0\<lparr>dsqs := (\<lambda>q. [])(DSQ_DOM 1 :=
                 replicate 1000 \<lparr>e_task = 9, e_slice = 20, e_vtime = Some 5, e_flags = 0\<rparr>)\<rparr>"

definition cfg_off :: config where
  "cfg_off = cfg0\<lparr>cpu_dom_id_map := (\<lambda>c. if c < 2 then 0 else if c = 2 then 1 else 65)\<rparr>"

text \<open>
  States for \<open>rusty_enqueue\<close>: the balancer has written \<open>target_dom = 1\<close> for a task
  of domain 0 (\<open>s_lb\<close>); the task is flagged for local dispatch (\<open>s_local\<close>); another
  task is already queued on domain 0 (\<open>s_queued\<close>).
\<close>

definition cfg_fifo :: config where
  "cfg_fifo = cfg0\<lparr>fifo_sched := True\<rparr>"

definition s_lb :: sched where
  "s_lb = s0\<lparr>task_ctxs := (\<lambda>t. taskc0\<lparr>target_dom := 1\<rparr>)\<rparr>"

definition s_local :: sched where
  "s_local = s0\<lparr>task_ctxs := (\<lambda>t. taskc0\<lparr>dispatch_local := True\<rparr>)\<rparr>"

definition s_queued :: sched where
  "s_queued = s0\<lparr>dsqs := (\<lambda>q. [])(DSQ_DOM 0 :=
                 [\<lparr>e_task = 9, e_slice = 20, e_vtime = Some 500, e_flags = 0\<rparr>])\<rparr>"

text \<open>Stand-ins for the two vtime updates of deadline.h: each moves the task's vtime.\<close>

definition ops0 :: deadline_ops where
  "ops0 = \<lparr>running_update_vtime = (\<lambda>p d. upd_proc p (\<lambda>ts. ts\<lparr>dsq_vtime := dsq_vtime ts + 1\<rparr>)),
            stopping_update_vtime = (\<lambda>p d. upd_proc p (\<lambda>ts. ts\<lparr>dsq_vtime := dsq_vtime ts + 7\<rparr>))\<rparr>"

text \<open>
  What the fairness engine keeps per task: the vtime in the task struct and the deadline,
  runtime, timestamps and frequencies of the task context.
\<close>

definition vtime_of :: "sched \<Rightarrow> nat \<Rightarrow> nat \<times> nat \<times> nat \<times> nat \<times> nat \<times> nat \<times> nat \<times> nat" where
  "vtime_of s q =
     (dsq_vtime (procs s q), deadline (task_ctxs s q), sum_runtime (task_ctxs s q),
      last_run_at (task_ctxs s q), last_woke_at (task_ctxs s q), waker_freq (task_ctxs s q),
      last_blocked_at (task_ctxs s q), blocked_freq (task_ctxs s q))"

text \<open>
  Admission: the four-CPU machine as a single domain (\<open>cfg_one\<close>, \<open>s_one\<close>), and the
  two-domain machine with a new task that may run on CPUs 2 and 3 (\<open>s_new\<close>).
\<close>

definition cfg_one :: config where
  "cfg_one = cfg0\<lparr>nr_doms := 1, cpu_dom_id_map := (\<lambda>c. 0)\<rparr>"

definition s_one :: sched where
  "s_one = s0\<lparr>dom_present := {0}, lb_domains := [0 \<mapsto> lb_dom {0, 1, 2, 3}],
              task_ctx_present := {}, task_masks := Map.empty\<rparr>"

definition s_new :: sched where
  "s_new = s0\<lparr>task_ctx_present := {}, task_masks := Map.empty,
              procs := (\<lambda>t. p0\<lparr>cpus_ptr := {2, 3}\<rparr>)\<rparr>"

section \<open>Properties of \<open>task_set_domain\<close>\<close>

lemma lookup_task_ctx_mask_frame:
  "lookup_task_ctx_mask s p = (s', tc, m) \<Longrightarrow>
     s' = s\<lparr>errors := errors s'\<rparr> \<and> tc = (p \<in> task_ctx_present s)
     \<and> m = (task_masks s p = Some True)"
  by (auto simp: lookup_task_ctx_mask_def lookup_task_ctx_def try_lookup_task_ctx_def
           lookup_task_bpfmask_def scx_bpf_error_def Let_def
           split: option.splits if_splits)

lemma lookup_dom_ctx_frame:
  "lookup_dom_ctx s d = (s', r) \<Longrightarrow>
     s' = s\<lparr>errors := errors s'\<rparr> \<and> r = try_lookup_dom_ctx s d"
  by (auto simp: lookup_dom_ctx_def scx_bpf_error_def split: option.splits)

text \<open>
  C1. A call of \<open>task_set_domain\<close> with a real domain (not the \<open>NO_DOM_FOUND\<close>
  sentinel) that differs from the task's current \<open>target_dom\<close> and whose CPU mask does
  not intersect the task's hard affinity \<open>p->cpus_ptr\<close> returns false and leaves
  \<open>target_dom\<close>, the cached domain pointer, the working cpumask and the task's vtime
  as they were; nothing but the error log can differ in the state.
\<close>

theorem task_set_domain_no_intersect:
  assumes "new_dom_id \<noteq> NO_DOM_FOUND cfg"
    and "target_dom (task_ctxs s p) \<noteq> new_dom_id"
    and "lb_domain_get s new_dom_id = Some lbd"
    and "lbd_cpumask lbd = Some d_cpumask"
    and "\<not> bpf_cpumask_intersects d_cpumask (cpus_ptr (procs s p))"
    and "task_set_domain cfg s p new_dom_id init_dsq_vtime = (r, s')"
  shows "r = False
         \<and> target_dom (task_ctxs s' p) = target_dom (task_ctxs s p)
         \<and> domc (task_ctxs s' p) = domc (task_ctxs s p)
         \<and> task_cpumasks s' p = task_cpumasks s p
         \<and> dsq_vtime (procs s' p) = dsq_vtime (procs s p)
         \<and> s' = s\<lparr>errors := errors s'\<rparr>"
proof -
  obtain s1 tc m where l: "lookup_task_ctx_mask s p = (s1, tc, m)"
    by (cases "lookup_task_ctx_mask s p") auto
  from lookup_task_ctx_mask_frame [OF l]
  have "s1 = s\<lparr>errors := errors s1\<rparr>" by simp
  then obtain e1 where s1: "s1 = s\<lparr>errors := e1\<rparr>" by blast
  obtain s2 od where d: "lookup_dom_ctx s1 (target_dom (task_ctxs s p)) = (s2, od)"
    by (cases "lookup_dom_ctx s1 (target_dom (task_ctxs s p))") auto
  from lookup_dom_ctx_frame [OF d] have "s2 = s1\<lparr>errors := errors s2\<rparr>" by simp
  with s1 have "s2 = s\<lparr>errors := errors s2\<rparr>" by simp
  then obtain e2 where s2: "s2 = s\<lparr>errors := e2\<rparr>" by blast
  have "r = False \<and> (\<exists>e. s' = s\<lparr>errors := e\<rparr>)"
    using assms l d
    unfolding s1 s2
    by (cases od)
       (auto simp: task_set_domain_def lb_domain_get_def scx_bpf_error_def Let_def
             split: option.splits if_splits)
  then obtain e where r: "r = False" and fr: "s' = s\<lparr>errors := e\<rparr>" by blast
  have "task_ctxs s' = task_ctxs s" "task_cpumasks s' = task_cpumasks s" "procs s' = procs s"
    "s' = s\<lparr>errors := errors s'\<rparr>"
    by (simp_all add: fr)
  with r show ?thesis by simp
qed

theorem task_set_domain_no_intersect_witness:
  "(case task_set_domain cfg0 (s0\<lparr>procs := (\<lambda>t. p0\<lparr>cpus_ptr := {0, 1}\<rparr>)\<rparr>) 7 1 False of
      (r, s') \<Rightarrow> \<not> r \<and> target_dom (task_ctxs s' 7) = 0 \<and> domc (task_ctxs s' 7) = Some 0
                 \<and> task_cpumasks s' 7 = {0, 1} \<and> dsq_vtime (procs s' 7) = 50)"
proof -
  let ?s = "s0\<lparr>procs := (\<lambda>t. p0\<lparr>cpus_ptr := {0, 1}\<rparr>)\<rparr>"
  obtain r s' where e: "task_set_domain cfg0 ?s 7 1 False = (r, s')"
    by (cases "task_set_domain cfg0 ?s 7 1 False") auto
  have h1: "(1::nat) \<noteq> NO_DOM_FOUND cfg0" by (simp add: cfg0_def)
  have h2: "target_dom (task_ctxs ?s 7) \<noteq> 1" by (simp add: s0_def taskc0_def)
  have h3: "lb_domain_get ?s 1 = Some (lb_dom {2, 3})" by (simp add: s0_def lb_domain_get_def)
  have h4: "lbd_cpumask (lb_dom {2, 3}) = Some {2, 3}" by (simp add: lb_dom_def)
  have h5: "\<not> bpf_cpumask_intersects {2, 3} (cpus_ptr (procs ?s 7))"
    by (simp add: bpf_cpumask_intersects_def s0_def p0_def)
  have v: "target_dom (task_ctxs ?s 7) = 0" "domc (task_ctxs ?s 7) = Some 0"
    "task_cpumasks ?s 7 = {0, 1}" "dsq_vtime (procs ?s 7) = 50"
    by (simp_all add: s0_def p0_def taskc0_def)
  from task_set_domain_no_intersect [OF h1 h2 h3 h4 h5 e] v
  have "\<not> r \<and> target_dom (task_ctxs s' 7) = 0 \<and> domc (task_ctxs s' 7) = Some 0
        \<and> task_cpumasks s' 7 = {0, 1} \<and> dsq_vtime (procs s' 7) = 50"
    by simp
  with e show ?thesis by simp
qed

text \<open>
  C10. A call of \<open>task_set_domain\<close> whose new domain id equals the task's current
  \<open>target_dom\<close> (and is not the \<open>NO_DOM_FOUND\<close> sentinel) returns true for an
  admitted task and a created domain, whether or not the task's hard affinity
  intersects the domain's CPU mask: the intersection test guards the state update only
  (without an intersection the state is returned as it was), and the result is the
  comparison of \<open>target_dom\<close> with the requested id.
\<close>

theorem task_set_domain_same_dom:
  assumes "new_dom_id \<noteq> NO_DOM_FOUND cfg"
    and "p \<in> task_ctx_present s"
    and "task_masks s p = Some True"
    and "target_dom (task_ctxs s p) = new_dom_id"
    and "new_dom_id \<in> dom_present s"
    and "lb_domain_get s new_dom_id = Some lbd"
    and "lbd_cpumask lbd = Some d_cpumask"
  shows "fst (task_set_domain cfg s p new_dom_id init_dsq_vtime) = True
         \<and> (\<not> bpf_cpumask_intersects d_cpumask (cpus_ptr (procs s p)) \<longrightarrow>
              snd (task_set_domain cfg s p new_dom_id init_dsq_vtime) = s)"
proof -
  have l: "lookup_task_ctx_mask s p = (s, True, True)"
    using assms(2,3)
    by (simp add: lookup_task_ctx_mask_def lookup_task_ctx_def try_lookup_task_ctx_def
        lookup_task_bpfmask_def)
  have d: "lookup_dom_ctx s new_dom_id = (s, Some new_dom_id)"
    "try_lookup_dom_ctx s new_dom_id = Some new_dom_id"
    using assms(5) by (simp_all add: lookup_dom_ctx_def try_lookup_dom_ctx_def)
  show ?thesis
    using assms(1,4,6,7) l d
    by (simp add: task_set_domain_def set_domain_update_def upd_taskc_def upd_proc_def
        dom_xfer_task_def Let_def)
qed

theorem task_set_domain_same_dom_witness:
  "\<not> bpf_cpumask_intersects {0, 1} (cpus_ptr (procs (s0\<lparr>procs := (\<lambda>t. p0\<lparr>cpus_ptr := {2, 3}\<rparr>)\<rparr>) 7))
   \<and> task_set_domain cfg0 (s0\<lparr>procs := (\<lambda>t. p0\<lparr>cpus_ptr := {2, 3}\<rparr>)\<rparr>) 7 0 False
       = (True, s0\<lparr>procs := (\<lambda>t. p0\<lparr>cpus_ptr := {2, 3}\<rparr>)\<rparr>)"
proof -
  let ?s = "s0\<lparr>procs := (\<lambda>t. p0\<lparr>cpus_ptr := {2, 3}\<rparr>)\<rparr>"
  have h1: "(0::nat) \<noteq> NO_DOM_FOUND cfg0" by (simp add: cfg0_def)
  have h2: "7 \<in> task_ctx_present ?s" by (simp add: s0_def)
  have h3: "task_masks ?s 7 = Some True" by (simp add: s0_def)
  have h4: "target_dom (task_ctxs ?s 7) = 0" by (simp add: s0_def taskc0_def)
  have h5: "0 \<in> dom_present ?s" by (simp add: s0_def)
  have h6: "lb_domain_get ?s 0 = Some (lb_dom {0, 1})" by (simp add: s0_def lb_domain_get_def)
  have h7: "lbd_cpumask (lb_dom {0, 1}) = Some {0, 1}" by (simp add: lb_dom_def)
  have h8: "\<not> bpf_cpumask_intersects {0, 1} (cpus_ptr (procs ?s 7))"
    by (simp add: bpf_cpumask_intersects_def s0_def p0_def)
  from task_set_domain_same_dom [OF h1 h2 h3 h4 h5 h6 h7, of False] h8
  have "fst (task_set_domain cfg0 ?s 7 0 False) = True"
    "snd (task_set_domain cfg0 ?s 7 0 False) = ?s"
    by simp_all
  then have "task_set_domain cfg0 ?s 7 0 False = (True, ?s)"
    by (metis prod.collapse)
  with h8 show ?thesis by simp
qed

section \<open>Properties of \<open>refresh_tune_params\<close>, \<open>rusty_select_cpu\<close> and \<open>rusty_running\<close>\<close>

lemma refresh_loop_frame:
  "tune_params_gen (refresh_loop cfg cpus s) = tune_params_gen s
   \<and> slice_ns (refresh_loop cfg cpus s) = slice_ns s
   \<and> tune_input (refresh_loop cfg cpus s) = tune_input s
   \<and> procs (refresh_loop cfg cpus s) = procs s
   \<and> task_ctxs (refresh_loop cfg cpus s) = task_ctxs s
   \<and> task_ctx_present (refresh_loop cfg cpus s) = task_ctx_present s
   \<and> task_masks (refresh_loop cfg cpus s) = task_masks s
   \<and> idle_cpumask (refresh_loop cfg cpus s) = idle_cpumask s
   \<and> idle_smtmask (refresh_loop cfg cpus s) = idle_smtmask s
   \<and> stats (refresh_loop cfg cpus s) = stats s"
  by (induction cpus arbitrary: s) (auto simp: refresh_cpu_def Let_def split: option.splits)

lemma refresh_tune_params_frame:
  "procs (refresh_tune_params cfg s) = procs s
   \<and> task_ctxs (refresh_tune_params cfg s) = task_ctxs s
   \<and> task_ctx_present (refresh_tune_params cfg s) = task_ctx_present s
   \<and> task_masks (refresh_tune_params cfg s) = task_masks s
   \<and> idle_cpumask (refresh_tune_params cfg s) = idle_cpumask s
   \<and> idle_smtmask (refresh_tune_params cfg s) = idle_smtmask s
   \<and> stats (refresh_tune_params cfg s) = stats s"
  by (simp add: refresh_tune_params_def refresh_loop_frame)

text \<open>
  C9. When the live tuning generation equals the cached one, \<open>refresh_tune_params\<close>
  returns the state as it is: the slice length, the global and per-domain direct-greedy
  cpumasks, the kick-greedy cpumask and the cached generation are unchanged. Only when
  the generation differs does it take the generation and the slice from the tuning
  input (and go through the CPUs to rebuild the masks).
\<close>

theorem refresh_tune_params_gen:
  "(tune_params_gen s = gen (tune_input s) \<longrightarrow>
      refresh_tune_params cfg s = s
      \<and> slice_ns (refresh_tune_params cfg s) = slice_ns s
      \<and> direct_greedy_cpumask (refresh_tune_params cfg s) = direct_greedy_cpumask s
      \<and> lb_domains (refresh_tune_params cfg s) = lb_domains s
      \<and> kick_greedy_cpumask (refresh_tune_params cfg s) = kick_greedy_cpumask s
      \<and> tune_params_gen (refresh_tune_params cfg s) = tune_params_gen s)
   \<and> (tune_params_gen s \<noteq> gen (tune_input s) \<longrightarrow>
      tune_params_gen (refresh_tune_params cfg s) = gen (tune_input s)
      \<and> slice_ns (refresh_tune_params cfg s) = ti_slice_ns (tune_input s))"
  by (simp add: refresh_tune_params_def refresh_loop_frame)

theorem refresh_tune_params_gen_witness:
  "tune_params_gen s0 = gen (tune_input s0) \<and> refresh_tune_params cfg0 s0 = s0
   \<and> tune_params_gen (s0\<lparr>tune_params_gen := 5\<rparr>) \<noteq> gen (tune_input (s0\<lparr>tune_params_gen := 5\<rparr>))
   \<and> tune_params_gen (refresh_tune_params cfg0 (s0\<lparr>tune_params_gen := 5\<rparr>)) = 0
   \<and> slice_ns (refresh_tune_params cfg0 (s0\<lparr>tune_params_gen := 5\<rparr>)) = 20"
proof -
  have a: "tune_params_gen s0 = gen (tune_input s0)" by (simp add: s0_def)
  have b: "tune_params_gen (s0\<lparr>tune_params_gen := 5\<rparr>) \<noteq> gen (tune_input (s0\<lparr>tune_params_gen := 5\<rparr>))"
    by (simp add: s0_def)
  have c: "gen (tune_input (s0\<lparr>tune_params_gen := 5\<rparr>)) = 0"
    "ti_slice_ns (tune_input (s0\<lparr>tune_params_gen := 5\<rparr>)) = 20" by (simp_all add: s0_def)
  from refresh_tune_params_gen [of s0 cfg0] refresh_tune_params_gen [of "s0\<lparr>tune_params_gen := 5\<rparr>" cfg0]
    a b c show ?thesis by simp
qed

text \<open>
  C6. For an admitted task whose affinity allows exactly one CPU
  (\<open>nr_cpus_allowed = 1\<close>), \<open>rusty_select_cpu\<close> returns the previous CPU without
  any idle search (no idle CPU is claimed), marks the task for local-queue dispatch, and
  adds one to the pinned counter, or to the direct-dispatch counter instead when
  \<open>kthreads_local\<close> is set and the task is a kernel thread.
\<close>

theorem select_cpu_pinned:
  assumes "p \<in> task_ctx_present s"
    and "task_masks s p = Some True"
    and "nr_cpus_allowed (procs s p) = 1"
    and "rusty_select_cpu cfg s p prev_cpu wake_sync = (cpu, s')"
  shows "cpu = prev_cpu
         \<and> dispatch_local (task_ctxs s' p)
         \<and> idle_cpumask s' = idle_cpumask s \<and> idle_smtmask s' = idle_smtmask s
         \<and> (if kthreads_local cfg \<and> PF_KTHREAD (procs s p)
            then stats s' = (stats s)(RUSTY_STAT_DIRECT_DISPATCH :=
                               stats s RUSTY_STAT_DIRECT_DISPATCH + 1)
            else stats s' = (stats s)(RUSTY_STAT_PINNED := stats s RUSTY_STAT_PINNED + 1))"
proof -
  let ?s0 = "refresh_tune_params cfg s"
  note fr = refresh_tune_params_frame [of cfg s]
  have l: "lookup_task_ctx_mask ?s0 p = (?s0, True, True)"
    using assms(1,2) fr
    by (simp add: lookup_task_ctx_mask_def lookup_task_ctx_def try_lookup_task_ctx_def
        lookup_task_bpfmask_def)
  show ?thesis
    using assms(3,4) l fr
    by (auto simp: rusty_select_cpu_def direct_def stat_add_def upd_taskc_def Let_def)
qed

theorem select_cpu_pinned_witness:
  "(case rusty_select_cpu cfg0 (s0\<lparr>procs := (\<lambda>t. p0\<lparr>cpus_ptr := {2}, nr_cpus_allowed := 1\<rparr>)\<rparr>)
           7 2 False of
      (cpu, s') \<Rightarrow> cpu = 2 \<and> dispatch_local (task_ctxs s' 7) \<and> idle_cpumask s' = {}
                   \<and> stats s' RUSTY_STAT_PINNED = 1 \<and> stats s' RUSTY_STAT_DIRECT_DISPATCH = 0)"
proof -
  let ?s = "s0\<lparr>procs := (\<lambda>t. p0\<lparr>cpus_ptr := {2}, nr_cpus_allowed := 1\<rparr>)\<rparr>"
  obtain cpu s' where e: "rusty_select_cpu cfg0 ?s 7 2 False = (cpu, s')"
    by (cases "rusty_select_cpu cfg0 ?s 7 2 False") auto
  have h1: "7 \<in> task_ctx_present ?s" by (simp add: s0_def)
  have h2: "task_masks ?s 7 = Some True" by (simp add: s0_def)
  have h3: "nr_cpus_allowed (procs ?s 7) = 1" by (simp add: s0_def p0_def)
  have v: "\<not> kthreads_local cfg0" "idle_cpumask ?s = {}" "stats ?s = (\<lambda>st. 0)"
    by (simp_all add: s0_def cfg0_def)
  from select_cpu_pinned [OF h1 h2 h3 e] v
  have "cpu = 2 \<and> dispatch_local (task_ctxs s' 7) \<and> idle_cpumask s' = {}
        \<and> stats s' RUSTY_STAT_PINNED = 1 \<and> stats s' RUSTY_STAT_DIRECT_DISPATCH = 0"
    by simp
  with e show ?thesis by simp
qed

lemma record_active_slot:
  assumes "0 < MAX_DOM_ACTIVE_TPTRS cfg"
    and "idx = unat (write_idx (dom_ctxs s d)) mod MAX_DOM_ACTIVE_TPTRS cfg"
    and "record_active cfg p d dap_gen s = (ok, s')"
  shows "ok \<and> idx < MAX_DOM_ACTIVE_TPTRS cfg
         \<and> active_tasks (dom_ctxs s' d) idx = p
         \<and> (\<forall>j. j \<noteq> idx \<longrightarrow> active_tasks (dom_ctxs s' d) j = active_tasks (dom_ctxs s d) j)
         \<and> write_idx (dom_ctxs s' d) = write_idx (dom_ctxs s d) + 1
         \<and> errors s' = errors s
         \<and> (unat (write_idx (dom_ctxs s d)) + MAX_DOM_ACTIVE_TPTRS cfg < 2 ^ 64 \<longrightarrow>
              unat (write_idx (dom_ctxs s d) + of_nat (MAX_DOM_ACTIVE_TPTRS cfg))
                mod MAX_DOM_ACTIVE_TPTRS cfg = idx)"
proof -
  let ?w = "write_idx (dom_ctxs s d)"
  let ?cap = "MAX_DOM_ACTIVE_TPTRS cfg"
  have b: "idx < ?cap" using assms(1,2) by simp
  have wrap: "unat (?w + of_nat ?cap) mod ?cap = idx" if h: "unat ?w + ?cap < 2 ^ 64"
  proof -
    have "?cap < 2 ^ 64" using h by simp
    then have c: "unat (of_nat ?cap :: 64 word) = ?cap"
      by (simp add: unat_of_nat)
    have "unat (?w + of_nat ?cap) = unat ?w + unat (of_nat ?cap :: 64 word)"
      using h c by (simp add: unat_add_lem [THEN iffD1])
    with c show ?thesis using assms(2) by simp
  qed
  from assms(3) b assms(2) have "ok \<and> active_tasks (dom_ctxs s' d) idx = p
     \<and> (\<forall>j. j \<noteq> idx \<longrightarrow> active_tasks (dom_ctxs s' d) j = active_tasks (dom_ctxs s d) j)
     \<and> write_idx (dom_ctxs s' d) = ?w + 1 \<and> errors s' = errors s"
    by (auto simp: record_active_def upd_taskc_def Let_def)
  with b wrap show ?thesis by simp
qed


text \<open>
  C5. The index \<open>rusty_running\<close> uses to write into a domain's ring of active tasks
  is the fetched-and-incremented write cursor modulo the ring capacity: it is below the
  capacity, the out-of-bounds branch after the modulo is not taken (no error is
  reported, the write happens), the slot gets the task and the other slots keep their
  entries, and the cursor a full capacity later lands on the same slot, so that
  successive writes wrap around and overwrite the oldest entry. \<open>rusty_running\<close> goes on
  from the write to its vtime bookkeeping (or returns there in fifo mode), never from
  the bounds check.
\<close>

theorem record_active_in_bounds:
  assumes "0 < MAX_DOM_ACTIVE_TPTRS cfg"
    and "idx = unat (write_idx (dom_ctxs s d)) mod MAX_DOM_ACTIVE_TPTRS cfg"
    and "record_active cfg p d dap_gen s = (ok, s')"
  shows "ok \<and> idx < MAX_DOM_ACTIVE_TPTRS cfg
         \<and> active_tasks (dom_ctxs s' d) idx = p
         \<and> (\<forall>j. j \<noteq> idx \<longrightarrow> active_tasks (dom_ctxs s' d) j = active_tasks (dom_ctxs s d) j)
         \<and> write_idx (dom_ctxs s' d) = write_idx (dom_ctxs s d) + 1
         \<and> errors s' = errors s
         \<and> (unat (write_idx (dom_ctxs s d)) + MAX_DOM_ACTIVE_TPTRS cfg < 2 ^ 64 \<longrightarrow>
              unat (write_idx (dom_ctxs s d) + of_nat (MAX_DOM_ACTIVE_TPTRS cfg))
                mod MAX_DOM_ACTIVE_TPTRS cfg = idx)
         \<and> (p \<in> task_ctx_present s \<and> domc (task_ctxs s p) = Some d
              \<and> dap_gen = active_gen (dom_ctxs s d) mod 2 ^ 32
              \<and> dom_active_tasks_gen (task_ctxs s p) \<noteq> dap_gen \<longrightarrow>
              rusty_running cfg ops s p =
                (if fifo_sched cfg then s'
                 else upd_taskc p (\<lambda>tc. tc\<lparr>last_run_at := now (running_update_vtime ops p d s')\<rparr>)
                        (running_update_vtime ops p d s')))"
proof -
  from record_active_slot [OF assms] have base: "ok \<and> idx < MAX_DOM_ACTIVE_TPTRS cfg
         \<and> active_tasks (dom_ctxs s' d) idx = p
         \<and> (\<forall>j. j \<noteq> idx \<longrightarrow> active_tasks (dom_ctxs s' d) j = active_tasks (dom_ctxs s d) j)
         \<and> write_idx (dom_ctxs s' d) = write_idx (dom_ctxs s d) + 1
         \<and> errors s' = errors s
         \<and> (unat (write_idx (dom_ctxs s d)) + MAX_DOM_ACTIVE_TPTRS cfg < 2 ^ 64 \<longrightarrow>
              unat (write_idx (dom_ctxs s d) + of_nat (MAX_DOM_ACTIVE_TPTRS cfg))
                mod MAX_DOM_ACTIVE_TPTRS cfg = idx)" .
  then have ok by simp
  have run: "rusty_running cfg ops s p =
                (if fifo_sched cfg then s'
                 else upd_taskc p (\<lambda>tc. tc\<lparr>last_run_at := now (running_update_vtime ops p d s')\<rparr>)
                        (running_update_vtime ops p d s'))"
    if "p \<in> task_ctx_present s" "domc (task_ctxs s p) = Some d"
      "dap_gen = active_gen (dom_ctxs s d) mod 2 ^ 32"
      "dom_active_tasks_gen (task_ctxs s p) \<noteq> dap_gen"
    using that assms(3) \<open>ok\<close>
    by (simp add: rusty_running_def lookup_task_ctx_def try_lookup_task_ctx_def Let_def)
  with base show ?thesis by simp
qed

theorem record_active_in_bounds_witness:
  "(case record_active cfg0 7 0 1
           (s0\<lparr>dom_ctxs := (\<lambda>d. domc0\<lparr>write_idx := 9\<rparr>)\<rparr>) of
      (ok, s') \<Rightarrow> ok \<and> (1::nat) < 8 \<and> active_tasks (dom_ctxs s' 0) 1 = 7
                  \<and> write_idx (dom_ctxs s' 0) = 10 \<and> errors s' = []
                  \<and> rusty_running cfg_fifo ops0
                       (s0\<lparr>dom_ctxs := (\<lambda>d. domc0\<lparr>write_idx := 9\<rparr>)\<rparr>) 7 = s')"
proof -
  let ?s = "s0\<lparr>dom_ctxs := (\<lambda>d. domc0\<lparr>write_idx := 9\<rparr>)\<rparr>"
  obtain ok s' where e: "record_active cfg0 7 0 1 ?s = (ok, s')"
    by (cases "record_active cfg0 7 0 1 ?s") auto
  have c: "record_active cfg_fifo 7 0 1 ?s = record_active cfg0 7 0 1 ?s"
    by (simp add: record_active_def cfg_fifo_def)
  have h1: "0 < MAX_DOM_ACTIVE_TPTRS cfg_fifo" by (simp add: cfg_fifo_def cfg0_def)
  have h2: "(1::nat) = unat (write_idx (dom_ctxs ?s 0)) mod MAX_DOM_ACTIVE_TPTRS cfg_fifo"
    by (simp add: s0_def domc0_def cfg_fifo_def cfg0_def)
  have v: "write_idx (dom_ctxs ?s 0) = 9" "errors ?s = []"
    by (simp_all add: s0_def domc0_def)
  have g: "7 \<in> task_ctx_present ?s" "domc (task_ctxs ?s 7) = Some 0"
    "(1::nat) = active_gen (dom_ctxs ?s 0) mod 2 ^ 32"
    "dom_active_tasks_gen (task_ctxs ?s 7) \<noteq> 1" "fifo_sched cfg_fifo"
    by (simp_all add: s0_def taskc0_def domc0_def cfg_fifo_def)
  from record_active_in_bounds [OF h1 h2 e [folded c], of ops0] v g
  have "ok \<and> active_tasks (dom_ctxs s' 0) 1 = 7 \<and> write_idx (dom_ctxs s' 0) = 10
        \<and> errors s' = [] \<and> rusty_running cfg_fifo ops0 ?s 7 = s'"
    by simp
  with e show ?thesis by simp
qed


text \<open>
  The scenario of the spec: capacity 8, ten run-starts on one domain. The ring holds the
  eight most recent tasks, the first two slots having been written twice.
\<close>

lemma ring_ten_run_starts:
  "map (active_tasks (dom_ctxs (foldl (rusty_running ring_cfg ops) ring_s [1, 2, 3, 4, 5, 6, 7, 8, 9, 10]) 0))
       [0, 1, 2, 3, 4, 5, 6, 7] = [9, 10, 3, 4, 5, 6, 7, 8]
   \<and> write_idx (dom_ctxs (foldl (rusty_running ring_cfg ops) ring_s [1, 2, 3, 4, 5, 6, 7, 8, 9, 10]) 0) = 10
   \<and> errors (foldl (rusty_running ring_cfg ops) ring_s [1, 2, 3, 4, 5, 6, 7, 8, 9, 10]) = []"
  by (simp add: ring_cfg_def ring_s_def s0_def cfg0_def taskc0_def domc0_def rusty_running_def
      record_active_def lookup_task_ctx_def try_lookup_task_ctx_def upd_taskc_def Let_def)

section \<open>Properties of \<open>rusty_dispatch\<close>\<close>

lemma rr_next_frame:
  "rr_next cfg cpu s = (d, s1) \<Longrightarrow>
     moves s1 = moves s \<and> dsqs s1 = dsqs s"
  by (auto simp: rr_next_def Let_def)

lemma move_to_local_frame:
  "scx_bpf_dsq_move_to_local st d cpu s = (moved, s1) \<Longrightarrow>
     moves s1 = moves s @ [(st, d)] \<and> (\<not> moved \<longrightarrow> dsqs s1 = dsqs s)"
  by (auto simp: scx_bpf_dsq_move_to_local_def Let_def split: option.splits)

lemma steal_same_node_moves:
  "steal_same_node cfg n cpu curr_dom my_node s = (b, s') \<Longrightarrow>
     \<exists>ms. moves s' = moves s @ ms \<and> length ms \<le> n \<and> (\<forall>x\<in>set ms. fst x = SAME_NODE)
          \<and> (\<not> b \<longrightarrow> dsqs s' = dsqs s)"
proof (induction n arbitrary: s b s')
  case 0
  then show ?case by simp
next
  case (Suc n)
  obtain d s1 where r: "rr_next cfg cpu s = (d, s1)" by (cases "rr_next cfg cpu s") auto
  note f1 = rr_next_frame [OF r]
  show ?case
  proof (cases "d = curr_dom \<or> dom_node_id cfg d \<noteq> my_node")
    case True
    with Suc.prems r have "steal_same_node cfg n cpu curr_dom my_node s1 = (b, s')" by simp
    from Suc.IH [OF this] f1 show ?thesis by (auto intro: le_SucI)
  next
    case False
    obtain moved s2 where m: "scx_bpf_dsq_move_to_local SAME_NODE d cpu s1 = (moved, s2)"
      by (cases "scx_bpf_dsq_move_to_local SAME_NODE d cpu s1") auto
    note f2 = move_to_local_frame [OF m]
    show ?thesis
    proof (cases moved)
      case True
      with Suc.prems r m False have "b" "s' = stat_add RUSTY_STAT_GREEDY_LOCAL 1 s2" by auto
      then have "moves s' = moves s @ [(SAME_NODE, d)]" using f1 f2 by (simp add: stat_add_def)
      with \<open>b\<close> show ?thesis by auto
    next
      case nm: False
      with Suc.prems r m False
      have "steal_same_node cfg n cpu curr_dom my_node s2 = (b, s')" by simp
      from Suc.IH [OF this] obtain ms where
        ms: "moves s' = moves s2 @ ms" "length ms \<le> n" "\<forall>x\<in>set ms. fst x = SAME_NODE"
        "\<not> b \<longrightarrow> dsqs s' = dsqs s2"
        by blast
      have "moves s' = moves s @ ((SAME_NODE, d) # ms)" using ms(1) f1 f2 by simp
      moreover have "length ((SAME_NODE, d) # ms) \<le> Suc n" using ms(2) by simp
      moreover have "\<forall>x\<in>set ((SAME_NODE, d) # ms). fst x = SAME_NODE" using ms(3) by simp
      moreover have "\<not> b \<longrightarrow> dsqs s' = dsqs s" using ms(4) f1 f2 nm by simp
      ultimately show ?thesis by blast
    qed
  qed
qed

lemma nr_queued_cong:
  "dsqs t = dsqs s \<Longrightarrow> scx_bpf_dsq_nr_queued t = scx_bpf_dsq_nr_queued s"
  by (rule ext) (simp add: scx_bpf_dsq_nr_queued_def)

lemma steal_cross_node_moves:
  "steal_cross_node cfg n cpu curr_dom my_node s = (b, s') \<Longrightarrow>
     \<exists>ms. moves s' = moves s @ ms \<and> length ms \<le> n
          \<and> (\<forall>x\<in>set ms. fst x = CROSS_NODE
                \<and> scx_bpf_dsq_nr_queued s (DSQ_DOM (snd x)) < greedy_threshold_x_numa cfg
                \<and> dom_node_id cfg (snd x) \<noteq> my_node \<and> snd x \<noteq> curr_dom)
          \<and> (\<not> b \<longrightarrow> dsqs s' = dsqs s)"
proof (induction n arbitrary: s b s')
  case 0
  then show ?case by simp
next
  case (Suc n)
  obtain d s1 where r: "rr_next cfg cpu s = (d, s1)" by (cases "rr_next cfg cpu s") auto
  note f1 = rr_next_frame [OF r]
  then have q1: "scx_bpf_dsq_nr_queued s1 = scx_bpf_dsq_nr_queued s"
    by (intro nr_queued_cong) simp
  show ?case
  proof (cases "dom_node_id cfg d = my_node \<or> d = curr_dom
                \<or> scx_bpf_dsq_nr_queued s1 (DSQ_DOM d) \<ge> greedy_threshold_x_numa cfg")
    case True
    with Suc.prems r have "steal_cross_node cfg n cpu curr_dom my_node s1 = (b, s')" by simp
    from Suc.IH [OF this] show ?thesis
      unfolding q1 using f1 by (auto intro: le_SucI)
  next
    case False
    then have Pds: "scx_bpf_dsq_nr_queued s (DSQ_DOM d) < greedy_threshold_x_numa cfg"
      "dom_node_id cfg d \<noteq> my_node" "d \<noteq> curr_dom"
      unfolding q1 by auto
    obtain moved s2 where m: "scx_bpf_dsq_move_to_local CROSS_NODE d cpu s1 = (moved, s2)"
      by (cases "scx_bpf_dsq_move_to_local CROSS_NODE d cpu s1") auto
    note f2 = move_to_local_frame [OF m]
    show ?thesis
    proof (cases moved)
      case True
      with Suc.prems r m False have "b" "s' = stat_add RUSTY_STAT_GREEDY_XNUMA 1 s2" by auto
      then have "moves s' = moves s @ [(CROSS_NODE, d)]" using f1 f2 by (simp add: stat_add_def)
      with \<open>b\<close> Pds show ?thesis by auto
    next
      case nm: False
      with Suc.prems r m False
      have "steal_cross_node cfg n cpu curr_dom my_node s2 = (b, s')" by simp
      moreover have d2: "dsqs s2 = dsqs s" using f1 f2 nm by simp
      then have q2: "scx_bpf_dsq_nr_queued s2 = scx_bpf_dsq_nr_queued s"
        by (rule nr_queued_cong)
      ultimately obtain ms where
        ms: "moves s' = moves s2 @ ms" "length ms \<le> n"
        "\<forall>x\<in>set ms. fst x = CROSS_NODE
                \<and> scx_bpf_dsq_nr_queued s (DSQ_DOM (snd x)) < greedy_threshold_x_numa cfg
                \<and> dom_node_id cfg (snd x) \<noteq> my_node \<and> snd x \<noteq> curr_dom"
        "\<not> b \<longrightarrow> dsqs s' = dsqs s2"
        using Suc.IH [of s2 b s'] by auto
      have "\<forall>x\<in>set ((CROSS_NODE, d) # ms). fst x = CROSS_NODE
                \<and> scx_bpf_dsq_nr_queued s (DSQ_DOM (snd x)) < greedy_threshold_x_numa cfg
                \<and> dom_node_id cfg (snd x) \<noteq> my_node \<and> snd x \<noteq> curr_dom"
        using ms(3) Pds by simp
      moreover have "moves s' = moves s @ ((CROSS_NODE, d) # ms)" using ms(1) f1 f2 by simp
      moreover have "length ((CROSS_NODE, d) # ms) \<le> Suc n" using ms(2) by simp
      moreover have "\<not> b \<longrightarrow> dsqs s' = dsqs s" using ms(4) d2 by simp
      ultimately show ?thesis by blast
    qed
  qed
qed

lemma lookup_pcpu_ctx_frame:
  "lookup_pcpu_ctx cfg s cpu = (s1, r) \<Longrightarrow> moves s1 = moves s \<and> dsqs s1 = dsqs s"
  by (auto simp: lookup_pcpu_ctx_def scx_bpf_error_def split: if_splits)

lemma rusty_dispatch_moves:
  assumes "\<not> is_offline_cpu cfg cpu"
  shows "\<exists>ms1 ms2. moves (rusty_dispatch cfg s cpu)
            = moves s @ (OWN_DOM, cpu_to_dom_id cfg cpu) # ms1 @ ms2
         \<and> length ms1 \<le> u32_dec (nr_doms cfg) \<and> (\<forall>x\<in>set ms1. fst x = SAME_NODE)
         \<and> length ms2 \<le> u32_dec (nr_doms cfg)
         \<and> (\<forall>x\<in>set ms2. fst x = CROSS_NODE
               \<and> scx_bpf_dsq_nr_queued s (DSQ_DOM (snd x)) < greedy_threshold_x_numa cfg
               \<and> dom_node_id cfg (snd x) \<noteq> dom_node_id cfg (cpu_to_dom_id cfg cpu))
         \<and> (ms1 \<noteq> [] \<longrightarrow> greedy_threshold cfg \<noteq> 0)
         \<and> (ms2 \<noteq> [] \<longrightarrow> greedy_threshold cfg \<noteq> 0 \<and> greedy_threshold_x_numa cfg \<noteq> 0
               \<and> nr_nodes cfg \<noteq> 1)"
proof -
  let ?cd = "cpu_to_dom_id cfg cpu"
  let ?mn = "dom_node_id cfg ?cd"
  let ?n = "u32_dec (nr_doms cfg)"
  let ?R = "\<lambda>t ms1 ms2. moves t = moves s @ (OWN_DOM, ?cd) # ms1 @ ms2
         \<and> length ms1 \<le> ?n \<and> (\<forall>x\<in>set ms1. fst x = SAME_NODE)
         \<and> length ms2 \<le> ?n
         \<and> (\<forall>x\<in>set ms2. fst x = CROSS_NODE
               \<and> scx_bpf_dsq_nr_queued s (DSQ_DOM (snd x)) < greedy_threshold_x_numa cfg
               \<and> dom_node_id cfg (snd x) \<noteq> ?mn)
         \<and> (ms1 \<noteq> [] \<longrightarrow> greedy_threshold cfg \<noteq> 0)
         \<and> (ms2 \<noteq> [] \<longrightarrow> greedy_threshold cfg \<noteq> 0 \<and> greedy_threshold_x_numa cfg \<noteq> 0
               \<and> nr_nodes cfg \<noteq> 1)"
  obtain moved s1 where m: "scx_bpf_dsq_move_to_local OWN_DOM ?cd cpu s = (moved, s1)"
    by (cases "scx_bpf_dsq_move_to_local OWN_DOM ?cd cpu s") auto
  note f1 = move_to_local_frame [OF m]
  obtain s2 pc where l: "lookup_pcpu_ctx cfg s1 cpu = (s2, pc)"
    by (cases "lookup_pcpu_ctx cfg s1 cpu") auto
  note f2 = lookup_pcpu_ctx_frame [OF l]
  obtain st s3 where a: "steal_same_node cfg ?n cpu ?cd ?mn s2 = (st, s3)"
    by (cases "steal_same_node cfg ?n cpu ?cd ?mn s2") auto
  from steal_same_node_moves [OF a] obtain ms1 where
    ms1: "moves s3 = moves s2 @ ms1" "length ms1 \<le> ?n" "\<forall>x\<in>set ms1. fst x = SAME_NODE"
      "\<not> st \<longrightarrow> dsqs s3 = dsqs s2"
    by blast
  obtain st' s4 where b: "steal_cross_node cfg ?n cpu ?cd ?mn s3 = (st', s4)"
    by (cases "steal_cross_node cfg ?n cpu ?cd ?mn s3") auto
  from steal_cross_node_moves [OF b] obtain ms2 where
    ms2: "moves s4 = moves s3 @ ms2" "length ms2 \<le> ?n"
      "\<forall>x\<in>set ms2. fst x = CROSS_NODE
          \<and> scx_bpf_dsq_nr_queued s3 (DSQ_DOM (snd x)) < greedy_threshold_x_numa cfg
          \<and> dom_node_id cfg (snd x) \<noteq> ?mn \<and> snd x \<noteq> ?cd"
    by blast
  have base: "moves s2 = moves s @ [(OWN_DOM, ?cd)]" using f1 f2 by simp
  consider (own) "moved" | (nogreedy) "\<not> moved" "greedy_threshold cfg = 0"
    | (nopcpu) "\<not> moved" "greedy_threshold cfg \<noteq> 0" "\<not> pc"
    | (same) "\<not> moved" "greedy_threshold cfg \<noteq> 0" "pc"
        "st \<or> greedy_threshold_x_numa cfg = 0 \<or> nr_nodes cfg = 1"
    | (cross) "\<not> moved" "greedy_threshold cfg \<noteq> 0" "pc" "\<not> st"
        "greedy_threshold_x_numa cfg \<noteq> 0" "nr_nodes cfg \<noteq> 1"
    by blast
  then have "\<exists>ms1 ms2. ?R (rusty_dispatch cfg s cpu) ms1 ms2"
  proof cases
    case own
    then have "rusty_dispatch cfg s cpu = stat_add RUSTY_STAT_DSQ_DISPATCH 1 s1"
      using assms m by (simp add: rusty_dispatch_def)
    then have "?R (rusty_dispatch cfg s cpu) [] []" using f1 by (simp add: stat_add_def)
    then show ?thesis by blast
  next
    case nogreedy
    then have "rusty_dispatch cfg s cpu = s1" using assms m by (simp add: rusty_dispatch_def)
    then have "?R (rusty_dispatch cfg s cpu) [] []" using f1 by simp
    then show ?thesis by blast
  next
    case nopcpu
    then have "rusty_dispatch cfg s cpu = s2" using assms m l by (simp add: rusty_dispatch_def)
    then have "?R (rusty_dispatch cfg s cpu) [] []" using base by simp
    then show ?thesis by blast
  next
    case same
    then have "rusty_dispatch cfg s cpu = s3"
      using assms m l a by (auto simp: rusty_dispatch_def Let_def)
    then have "?R (rusty_dispatch cfg s cpu) ms1 []" using base ms1 same(2) by simp
    then show ?thesis by blast
  next
    case cross
    then have e: "rusty_dispatch cfg s cpu = s4"
      using assms m l a b by (simp add: rusty_dispatch_def Let_def)
    have "dsqs s3 = dsqs s" using ms1(4) cross f1 f2 by simp
    then have "scx_bpf_dsq_nr_queued s3 = scx_bpf_dsq_nr_queued s" by (rule nr_queued_cong)
    with ms2(3) have "\<forall>x\<in>set ms2. fst x = CROSS_NODE
          \<and> scx_bpf_dsq_nr_queued s (DSQ_DOM (snd x)) < greedy_threshold_x_numa cfg
          \<and> dom_node_id cfg (snd x) \<noteq> ?mn" by simp
    then have "?R (rusty_dispatch cfg s cpu) ms1 ms2"
      using e base ms1 ms2(1,2) cross by simp
    then show ?thesis by blast
  qed
  then show ?thesis by simp
qed

lemma dispatch_x_eval:
  "moves (rusty_dispatch cfg_x s_x 0) = [(OWN_DOM, 0), (CROSS_NODE, 1)]"
  by (simp add: rusty_dispatch_def cfg_x_def s_x_def cfg0_def s0_def is_offline_cpu_def
      cpu_to_dom_id_def scx_bpf_dsq_move_to_local_def lookup_pcpu_ctx_def u32_dec_def
      rr_next_def scx_bpf_dsq_nr_queued_def stat_add_def Let_def)

text \<open>
  C7, as the spec has it, starts with "every dispatch call first attempts the local
  domain's queue". A call for an offline CPU returns before any attempt.
\<close>

theorem rusty_dispatch_own_dom_counterexample:
  "is_offline_cpu cfg_off 3 \<and> moves s0 = [] \<and> moves (rusty_dispatch cfg_off s0 3) = []"
  by (simp add: rusty_dispatch_def is_offline_cpu_def cpu_to_dom_id_def cfg_off_def cfg0_def
      s0_def)

text \<open>
  C7, amended. A dispatch call for an offline CPU returns at once and probes no queue.
  Every other dispatch call first attempts the queue of the CPU's own domain, then makes
  at most \<open>nr_doms - 1\<close> same-node steal probes and after them at most
  \<open>nr_doms - 1\<close> cross-node steal probes, whatever the number of domains; same-node
  probes happen only with a greedy threshold configured, cross-node probes only with a
  cross-node threshold configured and more than one NUMA node.
\<close>

theorem rusty_dispatch_bounded:
  assumes "0 < nr_doms cfg" and "0 < nr_nodes cfg"
  shows "(is_offline_cpu cfg cpu \<longrightarrow> rusty_dispatch cfg s cpu = s)
         \<and> (\<not> is_offline_cpu cfg cpu \<longrightarrow>
              (\<exists>ms1 ms2. moves (rusty_dispatch cfg s cpu)
                   = moves s @ (OWN_DOM, cpu_to_dom_id cfg cpu) # ms1 @ ms2
                 \<and> (\<forall>x\<in>set ms1. fst x = SAME_NODE) \<and> length ms1 \<le> nr_doms cfg - 1
                 \<and> (\<forall>x\<in>set ms2. fst x = CROSS_NODE) \<and> length ms2 \<le> nr_doms cfg - 1
                 \<and> (ms1 \<noteq> [] \<longrightarrow> greedy_threshold cfg \<noteq> 0)
                 \<and> (ms2 \<noteq> [] \<longrightarrow> greedy_threshold_x_numa cfg \<noteq> 0 \<and> 1 < nr_nodes cfg)))"
proof (intro conjI impI)
  assume "is_offline_cpu cfg cpu"
  then show "rusty_dispatch cfg s cpu = s" by (simp add: rusty_dispatch_def)
next
  assume on: "\<not> is_offline_cpu cfg cpu"
  have n: "u32_dec (nr_doms cfg) = nr_doms cfg - 1" using assms(1) by (simp add: u32_dec_def)
  from rusty_dispatch_moves [OF on, of s] obtain ms1 ms2 where
    h: "moves (rusty_dispatch cfg s cpu) = moves s @ (OWN_DOM, cpu_to_dom_id cfg cpu) # ms1 @ ms2"
      "length ms1 \<le> u32_dec (nr_doms cfg)" "\<forall>x\<in>set ms1. fst x = SAME_NODE"
      "length ms2 \<le> u32_dec (nr_doms cfg)" "\<forall>x\<in>set ms2. fst x = CROSS_NODE"
      "ms1 \<noteq> [] \<longrightarrow> greedy_threshold cfg \<noteq> 0"
      "ms2 \<noteq> [] \<longrightarrow> greedy_threshold_x_numa cfg \<noteq> 0 \<and> nr_nodes cfg \<noteq> 1"
    by blast
  have "ms2 \<noteq> [] \<longrightarrow> greedy_threshold_x_numa cfg \<noteq> 0 \<and> 1 < nr_nodes cfg"
    using h(7) assms(2) by auto
  with h show "\<exists>ms1 ms2. moves (rusty_dispatch cfg s cpu)
                   = moves s @ (OWN_DOM, cpu_to_dom_id cfg cpu) # ms1 @ ms2
                 \<and> (\<forall>x\<in>set ms1. fst x = SAME_NODE) \<and> length ms1 \<le> nr_doms cfg - 1
                 \<and> (\<forall>x\<in>set ms2. fst x = CROSS_NODE) \<and> length ms2 \<le> nr_doms cfg - 1
                 \<and> (ms1 \<noteq> [] \<longrightarrow> greedy_threshold cfg \<noteq> 0)
                 \<and> (ms2 \<noteq> [] \<longrightarrow> greedy_threshold_x_numa cfg \<noteq> 0 \<and> 1 < nr_nodes cfg)"
    unfolding n by blast
qed

theorem rusty_dispatch_bounded_witness:
  "0 < nr_doms cfg_x \<and> 0 < nr_nodes cfg_x \<and> \<not> is_offline_cpu cfg_x 0
   \<and> moves (rusty_dispatch cfg_x s_x 0) = [(OWN_DOM, 0), (CROSS_NODE, 1)]
   \<and> greedy_threshold_x_numa cfg_x \<noteq> 0 \<and> 1 < nr_nodes cfg_x
   \<and> is_offline_cpu cfg_off 3 \<and> rusty_dispatch cfg_off s0 3 = s0"
proof -
  have h: "0 < nr_doms cfg_x" "0 < nr_nodes cfg_x" "\<not> is_offline_cpu cfg_x 0"
    by (simp_all add: cfg_x_def cfg0_def is_offline_cpu_def cpu_to_dom_id_def)
  have h': "0 < nr_doms cfg_off" "0 < nr_nodes cfg_off" "is_offline_cpu cfg_off 3"
    by (simp_all add: cfg_off_def cfg0_def is_offline_cpu_def cpu_to_dom_id_def)
  have m0: "moves s_x = []" by (simp add: s_x_def s0_def)
  from rusty_dispatch_bounded [OF h(1,2), of 0 s_x] h(3) m0 obtain ms1 ms2 where
    ms: "moves (rusty_dispatch cfg_x s_x 0) = (OWN_DOM, cpu_to_dom_id cfg_x 0) # ms1 @ ms2"
      "\<forall>x\<in>set ms1. fst x = SAME_NODE" "\<forall>x\<in>set ms2. fst x = CROSS_NODE"
      "ms2 \<noteq> [] \<longrightarrow> greedy_threshold_x_numa cfg_x \<noteq> 0 \<and> 1 < nr_nodes cfg_x"
    by auto
  have ev: "moves (rusty_dispatch cfg_x s_x 0) = [(OWN_DOM, 0), (CROSS_NODE, 1)]"
    by (fact dispatch_x_eval)
  with ms(1) have "ms1 @ ms2 = [(CROSS_NODE, 1)]" by simp
  with ms(2) have "ms2 \<noteq> []" by (cases ms1) auto
  with ms(4) have "greedy_threshold_x_numa cfg_x \<noteq> 0 \<and> 1 < nr_nodes cfg_x" by simp
  moreover from rusty_dispatch_bounded [OF h'(1,2), of 3 s0] h'(3)
  have "rusty_dispatch cfg_off s0 3 = s0" by simp
  ultimately show ?thesis using h h'(3) ev by simp
qed


text \<open>
  C3 has the cross-node scan of dispatch probe a domain of another NUMA node only if its
  queue occupancy is not below the cross-node threshold, and skip every domain below it.
  The guard of the loop is the comparison the other way round,
  \<open>scx_bpf_dsq_nr_queued(dom) >= greedy_threshold_x_numa\<close> leading to \<open>continue\<close>:
  every domain the scan probes is on another node and has a queue occupancy strictly
  below the threshold, and a domain whose occupancy has reached the threshold is never
  probed, however long its queue.
\<close>

theorem rusty_dispatch_cross_node_threshold:
  "\<exists>ms. moves (rusty_dispatch cfg s cpu) = moves s @ ms
        \<and> (\<forall>d. (CROSS_NODE, d) \<in> set ms \<longrightarrow>
              scx_bpf_dsq_nr_queued s (DSQ_DOM d) < greedy_threshold_x_numa cfg
              \<and> dom_node_id cfg d \<noteq> dom_node_id cfg (cpu_to_dom_id cfg cpu))"
proof (cases "is_offline_cpu cfg cpu")
  case True
  then have "rusty_dispatch cfg s cpu = s" by (simp add: rusty_dispatch_def)
  then have "moves (rusty_dispatch cfg s cpu) = moves s @ []" by simp
  then show ?thesis by (metis empty_iff list.set(1))
next
  case False
  from rusty_dispatch_moves [OF False, of s] obtain ms1 ms2 where
    h: "moves (rusty_dispatch cfg s cpu) = moves s @ (OWN_DOM, cpu_to_dom_id cfg cpu) # ms1 @ ms2"
      "\<forall>x\<in>set ms1. fst x = SAME_NODE"
      "\<forall>x\<in>set ms2. fst x = CROSS_NODE
         \<and> scx_bpf_dsq_nr_queued s (DSQ_DOM (snd x)) < greedy_threshold_x_numa cfg
         \<and> dom_node_id cfg (snd x) \<noteq> dom_node_id cfg (cpu_to_dom_id cfg cpu)"
    by blast
  have "\<forall>d. (CROSS_NODE, d) \<in> set ((OWN_DOM, cpu_to_dom_id cfg cpu) # ms1 @ ms2) \<longrightarrow>
              scx_bpf_dsq_nr_queued s (DSQ_DOM d) < greedy_threshold_x_numa cfg
              \<and> dom_node_id cfg d \<noteq> dom_node_id cfg (cpu_to_dom_id cfg cpu)"
    using h(2,3) by fastforce
  with h(1) show ?thesis by blast
qed

theorem rusty_dispatch_cross_node_threshold_witness:
  "moves (rusty_dispatch cfg_x s_x 0) = moves s_x @ [(OWN_DOM, 0), (CROSS_NODE, 1)]
   \<and> scx_bpf_dsq_nr_queued s_x (DSQ_DOM 1) < greedy_threshold_x_numa cfg_x
   \<and> dom_node_id cfg_x 1 \<noteq> dom_node_id cfg_x (cpu_to_dom_id cfg_x 0)"
proof -
  have m0: "moves s_x = []" by (simp add: s_x_def s0_def)
  from rusty_dispatch_cross_node_threshold [of cfg_x s_x 0] obtain ms where
    ms: "moves (rusty_dispatch cfg_x s_x 0) = moves s_x @ ms"
      "\<forall>d. (CROSS_NODE, d) \<in> set ms \<longrightarrow>
          scx_bpf_dsq_nr_queued s_x (DSQ_DOM d) < greedy_threshold_x_numa cfg_x
          \<and> dom_node_id cfg_x d \<noteq> dom_node_id cfg_x (cpu_to_dom_id cfg_x 0)"
    by blast
  from ms(1) m0 dispatch_x_eval have "ms = [(OWN_DOM, 0), (CROSS_NODE, 1)]" by simp
  with ms show ?thesis by simp
qed

text \<open>
  The same scan, evaluated with a threshold of 2: a domain of another node with one
  queued task is probed and robbed; with two queued tasks, and with a thousand, it is
  passed over and the dispatching CPU stays without work.
\<close>

lemma rusty_dispatch_cross_node_eval:
  "(CROSS_NODE, 1) \<in> set (moves (rusty_dispatch cfg_x s_x 0))
   \<and> scx_bpf_dsq_nr_queued s_x (DSQ_DOM 1) < greedy_threshold_x_numa cfg_x
   \<and> dom_node_id cfg_x 1 \<noteq> dom_node_id cfg_x (cpu_to_dom_id cfg_x 0)
   \<and> stats (rusty_dispatch cfg_x s_x 0) RUSTY_STAT_GREEDY_XNUMA = 1
   \<and> scx_bpf_dsq_nr_queued s_x2 (DSQ_DOM 1) = greedy_threshold_x_numa cfg_x
   \<and> (CROSS_NODE, 1) \<notin> set (moves (rusty_dispatch cfg_x s_x2 0))"
  by (simp add: rusty_dispatch_def cfg_x_def s_x_def s_x2_def cfg0_def s0_def is_offline_cpu_def
      cpu_to_dom_id_def scx_bpf_dsq_move_to_local_def lookup_pcpu_ctx_def u32_dec_def
      rr_next_def scx_bpf_dsq_nr_queued_def stat_add_def p0_def Let_def numeral_2_eq_2)

lemma rusty_dispatch_cross_node_full_queue:
  "scx_bpf_dsq_nr_queued s_x1000 (DSQ_DOM 1) = 1000
   \<and> moves (rusty_dispatch cfg_x s_x1000 0) = [(OWN_DOM, 0)]
   \<and> dsqs (rusty_dispatch cfg_x s_x1000 0) = dsqs s_x1000"
  by (simp add: rusty_dispatch_def cfg_x_def s_x1000_def cfg0_def s0_def is_offline_cpu_def
      cpu_to_dom_id_def scx_bpf_dsq_move_to_local_def lookup_pcpu_ctx_def u32_dec_def
      rr_next_def scx_bpf_dsq_nr_queued_def stat_add_def p0_def Let_def)

text \<open>
  With a threshold of 1, the smallest value that enables the scan, a probed queue is
  empty, so the scan never steals anything.
\<close>

lemma steal_cross_node_threshold_one:
  assumes "greedy_threshold_x_numa cfg = 1"
  shows "fst (steal_cross_node cfg n cpu curr_dom my_node s) = False
         \<and> dsqs (snd (steal_cross_node cfg n cpu curr_dom my_node s)) = dsqs s
         \<and> stats (snd (steal_cross_node cfg n cpu curr_dom my_node s)) = stats s"
proof (induction n arbitrary: s)
  case 0
  then show ?case by simp
next
  case (Suc n)
  obtain d s1 where r: "rr_next cfg cpu s = (d, s1)" by (cases "rr_next cfg cpu s") auto
  then have f1: "dsqs s1 = dsqs s" "stats s1 = stats s" by (auto simp: rr_next_def Let_def)
  show ?case
  proof (cases "dom_node_id cfg d = my_node \<or> d = curr_dom
                \<or> scx_bpf_dsq_nr_queued s1 (DSQ_DOM d) \<ge> greedy_threshold_x_numa cfg")
    case True
    then have "steal_cross_node cfg (Suc n) cpu curr_dom my_node s
                 = steal_cross_node cfg n cpu curr_dom my_node s1"
      using r by simp
    with Suc.IH [of s1] f1 show ?thesis by simp
  next
    case False
    then have e: "dsqs s1 (DSQ_DOM d) = []"
      using assms by (cases "dsqs s1 (DSQ_DOM d)") (simp_all add: scx_bpf_dsq_nr_queued_def)
    let ?s2 = "s1\<lparr>moves := moves s1 @ [(CROSS_NODE, d)]\<rparr>"
    have m: "scx_bpf_dsq_move_to_local CROSS_NODE d cpu s1 = (False, ?s2)"
      using e by (simp add: scx_bpf_dsq_move_to_local_def Let_def)
    have "steal_cross_node cfg (Suc n) cpu curr_dom my_node s
                 = steal_cross_node cfg n cpu curr_dom my_node ?s2"
      using r False m by simp
    with Suc.IH [of ?s2] f1 show ?thesis by simp
  qed
qed

section \<open>Properties of \<open>rusty_enqueue\<close> and of fifo mode\<close>

lemma task_set_domain_frame:
  assumes "task_set_domain cfg s p new_dom_id init_dsq_vtime = (r, s')"
  shows "dsqs s' = dsqs s \<and> slice_ns s' = slice_ns s \<and> lb_domains s' = lb_domains s
         \<and> kick_greedy_cpumask s' = kick_greedy_cpumask s \<and> idle_cpumask s' = idle_cpumask s
         \<and> stats s' = stats s \<and> kicks s' = kicks s
         \<and> task_ctx_present s' = task_ctx_present s \<and> task_masks s' = task_masks s
         \<and> (\<forall>q. dispatch_local (task_ctxs s' q) = dispatch_local (task_ctxs s q)
                \<and> all_cpus (task_ctxs s' q) = all_cpus (task_ctxs s q)
                \<and> dom_mask (task_ctxs s' q) = dom_mask (task_ctxs s q))"
proof -
  obtain s1 tc m where l: "lookup_task_ctx_mask s p = (s1, tc, m)"
    by (cases "lookup_task_ctx_mask s p") auto
  from lookup_task_ctx_mask_frame [OF l]
  have "s1 = s\<lparr>errors := errors s1\<rparr>" by simp
  then obtain e1 where s1: "s1 = s\<lparr>errors := e1\<rparr>" by blast
  obtain s2 od where d: "lookup_dom_ctx s1 (target_dom (task_ctxs s p)) = (s2, od)"
    by (cases "lookup_dom_ctx s1 (target_dom (task_ctxs s p))") auto
  from lookup_dom_ctx_frame [OF d] have "s2 = s1\<lparr>errors := errors s2\<rparr>" by simp
  with s1 have "s2 = s\<lparr>errors := errors s2\<rparr>" by simp
  then obtain e2 where s2: "s2 = s\<lparr>errors := e2\<rparr>" by blast
  show ?thesis
    using assms l d
    unfolding s1 s2
    by (cases od)
       (auto simp: task_set_domain_def set_domain_update_def lb_domain_get_def
             scx_bpf_error_def upd_taskc_def upd_proc_def dom_xfer_task_def Let_def
             split: option.splits if_splits)
qed

lemma enqueue_dom_queue_fifo:
  assumes "fifo_sched cfg"
  shows "dsqs (enqueue_dom_queue cfg p f cpu s)
           = (dsqs s)(DSQ_DOM (target_dom (task_ctxs s p)) :=
                dsqs s (DSQ_DOM (target_dom (task_ctxs s p))) @
                  [\<lparr>e_task = p, e_slice = slice_ns s, e_vtime = None, e_flags = f\<rparr>])
         \<and> task_ctxs (enqueue_dom_queue cfg p f cpu s) = task_ctxs s"
  using assms
  by (simp add: enqueue_dom_queue_def scx_bpf_dsq_insert_def scx_bpf_kick_cpu_def stat_add_def
      Let_def split: option.splits)

lemma rusty_enqueue_fifo:
  assumes "fifo_sched cfg"
    and "p \<in> task_ctx_present s"
    and "task_masks s p = Some True"
    and "domc (task_ctxs s p) = Some d"
    and "\<not> dispatch_local (task_ctxs s p)"
    and "s' = rusty_enqueue cfg s p f"
    and "q = DSQ_DOM (target_dom (task_ctxs s' p))"
  shows "dsqs s' = (dsqs s)(q := dsqs s q @
                     [\<lparr>e_task = p, e_slice = slice_ns s, e_vtime = None, e_flags = f\<rparr>])"
proof -
  have l: "lookup_task_ctx_mask s p = (s, True, True)"
    using assms(2,3)
    by (simp add: lookup_task_ctx_mask_def lookup_task_ctx_def try_lookup_task_ctx_def
        lookup_task_bpfmask_def)
  obtain mg s2 where a: "(if d \<noteq> target_dom (task_ctxs s p)
                      then task_set_domain cfg s p d False else (False, s)) = (mg, s2)"
    by (cases "if d \<noteq> target_dom (task_ctxs s p)
                      then task_set_domain cfg s p d False else (False, s)") auto
  have fr: "dsqs s2 = dsqs s \<and> slice_ns s2 = slice_ns s
            \<and> dispatch_local (task_ctxs s2 p) = dispatch_local (task_ctxs s p)"
  proof (cases "d \<noteq> target_dom (task_ctxs s p)")
    case True
    with a have "task_set_domain cfg s p d False = (mg, s2)" by simp
    from task_set_domain_frame [OF this] show ?thesis by simp
  next
    case False
    with a show ?thesis by simp
  qed
  let ?e = "\<lparr>e_task = p, e_slice = slice_ns s, e_vtime = None, e_flags = f\<rparr>"
  have edq: "dsqs s' = (dsqs s)(q := dsqs s q @ [?e])"
    if "s' = enqueue_dom_queue cfg p f cpu s5" "dsqs s5 = dsqs s" "slice_ns s5 = slice_ns s"
    for cpu s5
    using enqueue_dom_queue_fifo [OF assms(1), of p f cpu s5] that assms(7) by simp
  show ?thesis
  proof (cases mg)
    case True
    let ?s4 = "upd_taskc p (\<lambda>tc. tc\<lparr>dispatch_local := False\<rparr>)
                 (stat_add RUSTY_STAT_LOAD_BALANCE 1 s2)"
    let ?cpu = "bpf_cpumask_any_distribute cfg (task_cpumasks ?s4 p)"
    let ?s5 = "if ?cpu < int (nr_cpu_ids cfg) then scx_bpf_kick_cpu ?cpu KICK_NONE ?s4 else ?s4"
    have "s' = enqueue_dom_queue cfg p f ?cpu ?s5"
      using assms(4,6) l a True by (simp add: rusty_enqueue_def Let_def)
    moreover have "dsqs ?s5 = dsqs s" "slice_ns ?s5 = slice_ns s"
      using fr by (simp_all add: stat_add_def upd_taskc_def scx_bpf_kick_cpu_def)
    ultimately show ?thesis by (rule edq)
  next
    case False
    note nl = fr [THEN conjunct2, THEN conjunct2]
    show ?thesis
    proof (cases "task_cpu (procs s2 p) \<notin> task_cpumasks s2 p")
      case True
      let ?cpu = "bpf_cpumask_any_distribute cfg (task_cpumasks s2 p)"
      let ?s4 = "stat_add RUSTY_STAT_REPATRIATE 1
                   (if ?cpu < int (nr_cpu_ids cfg) then scx_bpf_kick_cpu ?cpu KICK_NONE s2
                    else s2)"
      have "s' = enqueue_dom_queue cfg p f ?cpu ?s4"
        using assms(4,5,6) l a \<open>\<not> mg\<close> True nl by (simp add: rusty_enqueue_def Let_def)
      moreover have "dsqs ?s4 = dsqs s" "slice_ns ?s4 = slice_ns s"
        using fr by (simp_all add: stat_add_def scx_bpf_kick_cpu_def)
      ultimately show ?thesis by (rule edq)
    next
      case dm: False
      have "s' = enqueue_dom_queue cfg p f (- 1) s2"
        using assms(4,5,6) l a \<open>\<not> mg\<close> dm nl by (simp add: rusty_enqueue_def Let_def)
      moreover have "dsqs s2 = dsqs s" "slice_ns s2 = slice_ns s" using fr by simp_all
      ultimately show ?thesis by (rule edq)
    qed
  qed
qed

lemma rusty_running_fifo:
  assumes "fifo_sched cfg"
  shows "vtime_of (rusty_running cfg ops s p) q = vtime_of s q
         \<and> min_vruntime (dom_ctxs (rusty_running cfg ops s p) d) = min_vruntime (dom_ctxs s d)"
  using assms
  by (auto simp: rusty_running_def record_active_def lookup_task_ctx_def vtime_of_def
      scx_bpf_error_def upd_taskc_def Let_def split: option.splits if_splits)

lemma rusty_runnable_fifo:
  assumes "fifo_sched cfg"
  shows "vtime_of (rusty_runnable cfg s p f) q = vtime_of s q
         \<and> min_vruntime (dom_ctxs (rusty_runnable cfg s p f) d) = min_vruntime (dom_ctxs s d)"
  using assms
  by (auto simp: rusty_runnable_def task_load_adj_def dom_dcycle_adj_def lookup_task_ctx_def
      vtime_of_def scx_bpf_error_def upd_taskc_def Let_def split: option.splits if_splits)

lemma rusty_quiescent_fifo:
  assumes "fifo_sched cfg"
  shows "vtime_of (rusty_quiescent cfg s p f) q = vtime_of s q
         \<and> min_vruntime (dom_ctxs (rusty_quiescent cfg s p f) d) = min_vruntime (dom_ctxs s d)"
  using assms
  by (auto simp: rusty_quiescent_def task_load_adj_def dom_dcycle_adj_def lookup_task_ctx_def
      vtime_of_def scx_bpf_error_def upd_taskc_def Let_def split: option.splits if_splits)

lemma enqueue_dom_queue_frame:
  "task_ctxs (enqueue_dom_queue cfg p f cpu s) = task_ctxs s
   \<and> xfers (enqueue_dom_queue cfg p f cpu s) = xfers s
   \<and> stats (enqueue_dom_queue cfg p f cpu s) RUSTY_STAT_LOAD_BALANCE
       = stats s RUSTY_STAT_LOAD_BALANCE"
  by (simp add: enqueue_dom_queue_def scx_bpf_dsq_insert_def place_task_dl_def
      scx_bpf_kick_cpu_def stat_add_def Let_def split: option.splits)


text \<open>
  C2 has \<open>rusty_enqueue\<close> attempt the migration to the target domain the balancer
  wrote. The call is \<open>task_set_domain(p, domc->id, false)\<close>: its argument is the id of
  the domain the task is in. Whenever the task's domain \<open>d\<close> differs from
  \<open>target_dom\<close> (both created, \<open>d\<close> still within the task's affinity), the enqueue
  "migrates" to \<open>d\<close>: it writes \<open>d\<close> back into \<open>target_dom\<close>, transfers the load to
  \<open>d\<close> and counts a load balance; the domain the balancer asked for is never tried.
\<close>

theorem rusty_enqueue_migrates_to_domc:
  assumes "p \<in> task_ctx_present s"
    and "task_masks s p = Some True"
    and "domc (task_ctxs s p) = Some d"
    and "d \<noteq> target_dom (task_ctxs s p)"
    and "target_dom (task_ctxs s p) \<in> dom_present s"
    and "d \<in> dom_present s"
    and "d \<noteq> NO_DOM_FOUND cfg"
    and "lb_domain_get s d = Some lbd"
    and "lbd_cpumask lbd = Some d_cpumask"
    and "bpf_cpumask_intersects d_cpumask (cpus_ptr (procs s p))"
  shows "target_dom (task_ctxs (rusty_enqueue cfg s p f) p) = d
         \<and> domc (task_ctxs (rusty_enqueue cfg s p f) p) = Some d
         \<and> xfers (rusty_enqueue cfg s p f) = xfers s @ [(p, d, now s)]
         \<and> stats (rusty_enqueue cfg s p f) RUSTY_STAT_LOAD_BALANCE
             = stats s RUSTY_STAT_LOAD_BALANCE + 1"
proof -
  have l: "lookup_task_ctx_mask s p = (s, True, True)"
    using assms(1,2)
    by (simp add: lookup_task_ctx_mask_def lookup_task_ctx_def try_lookup_task_ctx_def
        lookup_task_bpfmask_def)
  have od: "lookup_dom_ctx s (target_dom (task_ctxs s p)) = (s, Some (target_dom (task_ctxs s p)))"
    using assms(5) by (simp add: lookup_dom_ctx_def try_lookup_dom_ctx_def)
  have nd: "try_lookup_dom_ctx s d = Some d"
    using assms(6) by (simp add: try_lookup_dom_ctx_def)
  let ?s2 = "set_domain_update cfg s p d d d_cpumask False"
  have sd: "task_set_domain cfg s p d False = (True, ?s2)"
    using l od nd assms(7,8,9,10)
    by (simp add: task_set_domain_def set_domain_update_def upd_taskc_def upd_proc_def
        dom_xfer_task_def Let_def)
  let ?s4 = "upd_taskc p (\<lambda>tc. tc\<lparr>dispatch_local := False\<rparr>)
               (stat_add RUSTY_STAT_LOAD_BALANCE 1 ?s2)"
  let ?cpu = "bpf_cpumask_any_distribute cfg (task_cpumasks ?s4 p)"
  let ?s5 = "if ?cpu < int (nr_cpu_ids cfg) then scx_bpf_kick_cpu ?cpu KICK_NONE ?s4 else ?s4"
  have e: "rusty_enqueue cfg s p f = enqueue_dom_queue cfg p f ?cpu ?s5"
    using l assms(3,4) sd by (simp add: rusty_enqueue_def Let_def)
  have "target_dom (task_ctxs ?s5 p) = d" "domc (task_ctxs ?s5 p) = Some d"
    "xfers ?s5 = xfers s @ [(p, d, now s)]"
    "stats ?s5 RUSTY_STAT_LOAD_BALANCE = stats s RUSTY_STAT_LOAD_BALANCE + 1"
    by (simp_all add: set_domain_update_def upd_taskc_def upd_proc_def dom_xfer_task_def
        stat_add_def scx_bpf_kick_cpu_def Let_def)
  then show ?thesis
    unfolding e using enqueue_dom_queue_frame [of cfg p f ?cpu ?s5] by simp
qed

theorem rusty_enqueue_migrates_to_domc_witness:
  "domc (task_ctxs s_lb 7) = Some 0 \<and> target_dom (task_ctxs s_lb 7) = 1
   \<and> bpf_cpumask_intersects {2, 3} (cpus_ptr (procs s_lb 7))
   \<and> target_dom (task_ctxs (rusty_enqueue cfg0 s_lb 7 0) 7) = 0
   \<and> domc (task_ctxs (rusty_enqueue cfg0 s_lb 7 0) 7) = Some 0
   \<and> xfers (rusty_enqueue cfg0 s_lb 7 0) = [(7, 0, 1000)]
   \<and> stats (rusty_enqueue cfg0 s_lb 7 0) RUSTY_STAT_LOAD_BALANCE = 1"
proof -
  have h: "7 \<in> task_ctx_present s_lb" "task_masks s_lb 7 = Some True"
    "domc (task_ctxs s_lb 7) = Some 0" "0 \<noteq> target_dom (task_ctxs s_lb 7)"
    "target_dom (task_ctxs s_lb 7) \<in> dom_present s_lb" "0 \<in> dom_present s_lb"
    "0 \<noteq> NO_DOM_FOUND cfg0" "lb_domain_get s_lb 0 = Some (lb_dom {0, 1})"
    "lbd_cpumask (lb_dom {0, 1}) = Some {0, 1}"
    "bpf_cpumask_intersects {0, 1} (cpus_ptr (procs s_lb 7))"
    by (simp_all add: s_lb_def s0_def taskc0_def cfg0_def p0_def lb_dom_def lb_domain_get_def
        bpf_cpumask_intersects_def)
  have v: "target_dom (task_ctxs s_lb 7) = 1" "xfers s_lb = []" "now s_lb = 1000"
    "stats s_lb RUSTY_STAT_LOAD_BALANCE = 0"
    "bpf_cpumask_intersects {2, 3} (cpus_ptr (procs s_lb 7))"
    by (simp_all add: s_lb_def s0_def taskc0_def p0_def bpf_cpumask_intersects_def)
  from rusty_enqueue_migrates_to_domc [OF h, of 0] h(3) v show ?thesis by simp
qed

text \<open>
  The same enqueue, evaluated: the task ends on the queue of domain 0, and the queue of
  domain 1, the balancer's target, stays empty.
\<close>

lemma rusty_enqueue_target_dom_reset:
  "domc (task_ctxs s_lb 7) = Some 0 \<and> target_dom (task_ctxs s_lb 7) = 1
   \<and> target_dom (task_ctxs (rusty_enqueue cfg0 s_lb 7 0) 7) = 0
   \<and> domc (task_ctxs (rusty_enqueue cfg0 s_lb 7 0) 7) = Some 0
   \<and> xfers (rusty_enqueue cfg0 s_lb 7 0) = [(7, 0, 1000)]
   \<and> stats (rusty_enqueue cfg0 s_lb 7 0) RUSTY_STAT_LOAD_BALANCE = 1
   \<and> map e_task (dsqs (rusty_enqueue cfg0 s_lb 7 0) (DSQ_DOM 0)) = [7]
   \<and> dsqs (rusty_enqueue cfg0 s_lb 7 0) (DSQ_DOM 1) = []"
  by (simp add: rusty_enqueue_def task_set_domain_def set_domain_update_def
      enqueue_dom_queue_def place_task_dl_def lookup_task_ctx_mask_def lookup_task_ctx_def
      try_lookup_task_ctx_def lookup_task_bpfmask_def lookup_dom_ctx_def try_lookup_dom_ctx_def
      lb_domain_get_def bpf_cpumask_intersects_def dom_xfer_task_def dom_min_vruntime_def
      upd_taskc_def upd_proc_def stat_add_def scx_bpf_kick_cpu_def
      bpf_cpumask_any_distribute_def first_cpu_def
      s_lb_def s0_def cfg0_def p0_def taskc0_def domc0_def lb_dom_def Let_def)


text \<open>
  C8, as the spec has it, lets every enqueue in fifo mode insert the task into its domain
  queue. A task that \<open>select_cpu\<close> flagged for local dispatch goes to the local queue
  of its CPU, in fifo mode as well, and no domain queue gets it.
\<close>

theorem rusty_enqueue_fifo_local_counterexample:
  "fifo_sched cfg_fifo
   \<and> dsqs (rusty_enqueue cfg_fifo s_local 7 0) (DSQ_DOM 0) = []
   \<and> dsqs (rusty_enqueue cfg_fifo s_local 7 0) (DSQ_DOM 1) = []
   \<and> map e_task (dsqs (rusty_enqueue cfg_fifo s_local 7 0) (DSQ_LOCAL 0)) = [7]"
  by (simp add: rusty_enqueue_def
      enqueue_dom_queue_def scx_bpf_dsq_insert_def lookup_task_ctx_mask_def lookup_task_ctx_def
      try_lookup_task_ctx_def lookup_task_bpfmask_def
      upd_taskc_def
      s_local_def cfg_fifo_def s0_def cfg0_def p0_def taskc0_def Let_def)

text \<open>
  Nor is the fairness engine out of the picture in fifo mode: an enqueue that changes
  the task's domain resets the task's vtime and deadline in \<open>task_set_domain\<close>.
\<close>

lemma rusty_enqueue_fifo_resets_vtime:
  "fifo_sched cfg_fifo \<and> dsq_vtime (procs s_lb 7) = 50
   \<and> dsq_vtime (procs (rusty_enqueue cfg_fifo s_lb 7 0) 7) = 10"
  by (simp add: rusty_enqueue_def task_set_domain_def set_domain_update_def
      enqueue_dom_queue_def scx_bpf_dsq_insert_def lookup_task_ctx_mask_def lookup_task_ctx_def
      try_lookup_task_ctx_def lookup_task_bpfmask_def lookup_dom_ctx_def try_lookup_dom_ctx_def
      lb_domain_get_def bpf_cpumask_intersects_def dom_xfer_task_def dom_min_vruntime_def
      upd_taskc_def upd_proc_def stat_add_def scx_bpf_kick_cpu_def
      bpf_cpumask_any_distribute_def first_cpu_def
      s_lb_def cfg_fifo_def s0_def cfg0_def p0_def taskc0_def domc0_def lb_dom_def Let_def)

text \<open>
  C8, amended. When fifo mode is enabled, every enqueue of an admitted task that has a
  domain and is not flagged for local dispatch appends the task to the queue of its
  domain (its \<open>target_dom\<close>) with the current slice and no vtime key, behind all tasks
  queued there, whatever their vtime; and the vtime and deadline updates of the
  runnable, running, stopping and quiescent hooks are skipped: the stopping hook changes
  nothing, and the other three leave every task's vtime, deadline, runtime, timestamps
  and frequencies and every domain's minimum vruntime as they were.
\<close>

theorem fifo_mode:
  assumes "fifo_sched cfg"
  shows "(p \<in> task_ctx_present s \<and> task_masks s p = Some True \<and> domc (task_ctxs s p) \<noteq> None
            \<and> \<not> dispatch_local (task_ctxs s p) \<longrightarrow>
          dsqs (rusty_enqueue cfg s p f)
            = (dsqs s)(DSQ_DOM (target_dom (task_ctxs (rusty_enqueue cfg s p f) p)) :=
                 dsqs s (DSQ_DOM (target_dom (task_ctxs (rusty_enqueue cfg s p f) p))) @
                   [\<lparr>e_task = p, e_slice = slice_ns s, e_vtime = None, e_flags = f\<rparr>]))
         \<and> rusty_stopping cfg ops s p rn = s
         \<and> (\<forall>q d. vtime_of (rusty_runnable cfg s p f) q = vtime_of s q
                  \<and> min_vruntime (dom_ctxs (rusty_runnable cfg s p f) d)
                      = min_vruntime (dom_ctxs s d)
                  \<and> vtime_of (rusty_running cfg ops s p) q = vtime_of s q
                  \<and> min_vruntime (dom_ctxs (rusty_running cfg ops s p) d)
                      = min_vruntime (dom_ctxs s d)
                  \<and> vtime_of (rusty_quiescent cfg s p f) q = vtime_of s q
                  \<and> min_vruntime (dom_ctxs (rusty_quiescent cfg s p f) d)
                      = min_vruntime (dom_ctxs s d))"
proof -
  have "rusty_stopping cfg ops s p rn = s" using assms by (simp add: rusty_stopping_def)
  moreover have "p \<in> task_ctx_present s \<and> task_masks s p = Some True
            \<and> domc (task_ctxs s p) \<noteq> None \<and> \<not> dispatch_local (task_ctxs s p) \<longrightarrow>
          dsqs (rusty_enqueue cfg s p f)
            = (dsqs s)(DSQ_DOM (target_dom (task_ctxs (rusty_enqueue cfg s p f) p)) :=
                 dsqs s (DSQ_DOM (target_dom (task_ctxs (rusty_enqueue cfg s p f) p))) @
                   [\<lparr>e_task = p, e_slice = slice_ns s, e_vtime = None, e_flags = f\<rparr>])"
    using rusty_enqueue_fifo [OF assms, of p s _ "rusty_enqueue cfg s p f" f] by auto
  ultimately show ?thesis
    using rusty_runnable_fifo [OF assms] rusty_running_fifo [OF assms]
      rusty_quiescent_fifo [OF assms]
    by simp
qed

theorem fifo_mode_witness:
  "fifo_sched cfg_fifo \<and> 7 \<in> task_ctx_present s_queued \<and> task_masks s_queued 7 = Some True
   \<and> domc (task_ctxs s_queued 7) \<noteq> None \<and> \<not> dispatch_local (task_ctxs s_queued 7)
   \<and> dsqs (rusty_enqueue cfg_fifo s_queued 7 0) (DSQ_DOM 0)
       = [\<lparr>e_task = 9, e_slice = 20, e_vtime = Some 500, e_flags = 0\<rparr>,
          \<lparr>e_task = 7, e_slice = 20, e_vtime = None, e_flags = 0\<rparr>]
   \<and> rusty_stopping cfg_fifo ops0 s_queued 7 True = s_queued
   \<and> vtime_of (rusty_running cfg_fifo ops0 s_queued 7) 7 = (50, 50, 0, 0, 0, 0, 0, 0)"
proof -
  have h: "fifo_sched cfg_fifo" by (simp add: cfg_fifo_def)
  have g: "7 \<in> task_ctx_present s_queued" "task_masks s_queued 7 = Some True"
    "domc (task_ctxs s_queued 7) \<noteq> None" "\<not> dispatch_local (task_ctxs s_queued 7)"
    by (simp_all add: s_queued_def s0_def taskc0_def)
  have t: "target_dom (task_ctxs (rusty_enqueue cfg_fifo s_queued 7 0) 7) = 0"
    by (simp add: rusty_enqueue_def enqueue_dom_queue_def scx_bpf_dsq_insert_def
        lookup_task_ctx_mask_def lookup_task_ctx_def try_lookup_task_ctx_def
        lookup_task_bpfmask_def upd_taskc_def
        s_queued_def cfg_fifo_def s0_def cfg0_def p0_def taskc0_def Let_def)
  have v: "vtime_of s_queued 7 = (50, 50, 0, 0, 0, 0, 0, 0)" "slice_ns s_queued = 20"
    "dsqs s_queued (DSQ_DOM 0) = [\<lparr>e_task = 9, e_slice = 20, e_vtime = Some 500, e_flags = 0\<rparr>]"
    by (simp_all add: vtime_of_def s_queued_def s0_def p0_def taskc0_def)
  from fifo_mode [OF h, of 7 s_queued 0 ops0 True] g
  have "dsqs (rusty_enqueue cfg_fifo s_queued 7 0)
            = (dsqs s_queued)(DSQ_DOM (target_dom (task_ctxs (rusty_enqueue cfg_fifo s_queued 7 0) 7)) :=
                 dsqs s_queued (DSQ_DOM (target_dom (task_ctxs (rusty_enqueue cfg_fifo s_queued 7 0) 7))) @
                   [\<lparr>e_task = 7, e_slice = slice_ns s_queued, e_vtime = None, e_flags = 0\<rparr>])"
    "rusty_stopping cfg_fifo ops0 s_queued 7 True = s_queued"
    "vtime_of (rusty_running cfg_fifo ops0 s_queued 7) 7 = vtime_of s_queued 7"
    by simp_all
  with t v h g show ?thesis by simp
qed

section \<open>Properties of domain selection\<close>

lemma intersects_domain_cong:
  "lb_domains t = lb_domains s \<Longrightarrow> cpumask_intersects_domain t = cpumask_intersects_domain s"
  by (intro ext) (simp add: cpumask_intersects_domain_def lb_domain_get_def)

lemma mempolicy_fold_frame:
  "lb_domains (fold (\<lambda>node_id t. if \<not> bit val node_id then t
                      else upd_taskc p (\<lambda>tc. tc\<lparr>preferred_dom_mask :=
                             preferred_dom_mask tc OR node_dom_mask cfg node_id\<rparr>) t) ns s)
     = lb_domains s
   \<and> dom_mask (task_ctxs (fold (\<lambda>node_id t. if \<not> bit val node_id then t
                      else upd_taskc p (\<lambda>tc. tc\<lparr>preferred_dom_mask :=
                             preferred_dom_mask tc OR node_dom_mask cfg node_id\<rparr>) t) ns s) q)
     = dom_mask (task_ctxs s q)"
  by (induction ns arbitrary: s) (auto simp: upd_taskc_def)

lemma mempolicy_frame:
  "lb_domains (task_set_preferred_mempolicy_dom_mask cfg p s) = lb_domains s
   \<and> dom_mask (task_ctxs (task_set_preferred_mempolicy_dom_mask cfg p s) q)
       = dom_mask (task_ctxs s q)"
  by (auto simp: task_set_preferred_mempolicy_dom_mask_def lookup_task_bpfmask_def
      scx_bpf_error_def upd_taskc_def mempolicy_fold_frame Let_def split: option.splits)

lemma bit_dom_mask_or:
  "bit (m OR 2 ^ n :: 64 word) j \<longleftrightarrow> bit m j \<or> (j = n \<and> n < 64)"
  by (auto simp: bit_or_iff bit_exp_iff)

lemma pick_loop_mask:
  "pick_loop cfg n p cm dom_id fd pd s = (fd', pd', s') \<Longrightarrow>
     lb_domains s' = lb_domains s
     \<and> (\<forall>j. bit (dom_mask (task_ctxs s' p)) j \<longleftrightarrow>
            bit (dom_mask (task_ctxs s p)) j
            \<or> (j < 64 \<and> cpumask_intersects_domain s cm j
                \<and> (\<exists>k. 1 \<le> k \<and> k \<le> n \<and> j = (next_dom cfg ^^ k) dom_id)))"
proof (induction n arbitrary: dom_id fd pd s)
  case 0
  then show ?case by simp
next
  case (Suc n)
  let ?d1 = "next_dom cfg dom_id"
  have vis: "(\<exists>k. 1 \<le> k \<and> k \<le> Suc n \<and> j = (next_dom cfg ^^ k) dom_id)
             \<longleftrightarrow> j = ?d1 \<or> (\<exists>k. 1 \<le> k \<and> k \<le> n \<and> j = (next_dom cfg ^^ k) ?d1)" for j
  proof
    assume "\<exists>k. 1 \<le> k \<and> k \<le> Suc n \<and> j = (next_dom cfg ^^ k) dom_id"
    then obtain k where k: "1 \<le> k" "k \<le> Suc n" "j = (next_dom cfg ^^ k) dom_id" by blast
    then obtain k' where k': "k = Suc k'" by (cases k) auto
    show "j = ?d1 \<or> (\<exists>k. 1 \<le> k \<and> k \<le> n \<and> j = (next_dom cfg ^^ k) ?d1)"
    proof (cases k')
      case 0
      with k k' show ?thesis by simp
    next
      case (Suc m)
      with k k' have "1 \<le> k'" "k' \<le> n" "j = (next_dom cfg ^^ k') ?d1"
        by (simp_all add: funpow_swap1)
      then show ?thesis by blast
    qed
  next
    assume "j = ?d1 \<or> (\<exists>k. 1 \<le> k \<and> k \<le> n \<and> j = (next_dom cfg ^^ k) ?d1)"
    then show "\<exists>k. 1 \<le> k \<and> k \<le> Suc n \<and> j = (next_dom cfg ^^ k) dom_id"
    proof
      assume "j = ?d1"
      then have "1 \<le> (1::nat) \<and> 1 \<le> Suc n \<and> j = (next_dom cfg ^^ 1) dom_id" by simp
      then show ?thesis by blast
    next
      assume "\<exists>k. 1 \<le> k \<and> k \<le> n \<and> j = (next_dom cfg ^^ k) ?d1"
      then obtain k where "1 \<le> k" "k \<le> n" "j = (next_dom cfg ^^ k) ?d1" by blast
      then have "1 \<le> Suc k \<and> Suc k \<le> Suc n \<and> j = (next_dom cfg ^^ Suc k) dom_id"
        by (simp add: funpow_swap1)
      then show ?thesis by blast
    qed
  qed
  show ?case
  proof (cases "cpumask_intersects_domain s cm ?d1")
    case False
    with Suc.prems have "pick_loop cfg n p cm ?d1 fd pd s = (fd', pd', s')"
      by (simp add: Let_def)
    from Suc.IH [OF this] False show ?thesis unfolding vis by auto
  next
    case True
    let ?s1 = "upd_taskc p (\<lambda>tc. tc\<lparr>dom_mask := dom_mask tc OR push_bit ?d1 1\<rparr>) s"
    have lb1: "lb_domains ?s1 = lb_domains s" by (simp add: upd_taskc_def)
    then have i1: "cpumask_intersects_domain ?s1 = cpumask_intersects_domain s"
      by (rule intersects_domain_cong)
    have m1: "bit (dom_mask (task_ctxs ?s1 p)) j
               \<longleftrightarrow> bit (dom_mask (task_ctxs s p)) j \<or> (j = ?d1 \<and> ?d1 < 64)" for j
      by (simp add: upd_taskc_def bit_dom_mask_or)
    from Suc.prems True obtain fd1 pd1 where
      "pick_loop cfg n p cm ?d1 fd1 pd1 ?s1 = (fd', pd', s')"
      by (auto simp: Let_def split: if_splits)
    from Suc.IH [OF this] have
      "lb_domains s' = lb_domains ?s1"
      "\<forall>j. bit (dom_mask (task_ctxs s' p)) j \<longleftrightarrow>
            bit (dom_mask (task_ctxs ?s1 p)) j
            \<or> (j < 64 \<and> cpumask_intersects_domain ?s1 cm j
                \<and> (\<exists>k. 1 \<le> k \<and> k \<le> n \<and> j = (next_dom cfg ^^ k) ?d1))"
      by simp_all
    then show ?thesis
      unfolding vis i1 m1 lb1 using True by auto
  qed
qed

lemma next_dom_iter:
  assumes "0 < nr_doms cfg" and "nr_doms cfg < 2 ^ 32"
  shows "(next_dom cfg ^^ Suc k) d = (next_dom cfg d + k) mod nr_doms cfg"
proof (induction k)
  case 0
  then show ?case using assms by (simp add: next_dom_def)
next
  case (Suc k)
  let ?N = "nr_doms cfg"
  let ?x = "(next_dom cfg d + k) mod ?N"
  have "?x < ?N" using assms(1) by simp
  then have "?x + 1 < 2 ^ 32" using assms(2) by simp
  then have "next_dom cfg ?x = (?x + 1) mod ?N" by (simp add: next_dom_def)
  also have "\<dots> = (next_dom cfg d + Suc k) mod ?N" by (simp add: mod_Suc_eq)
  finally show ?case using Suc by simp
qed

lemma next_dom_visits_all:
  assumes "0 < nr_doms cfg" and "nr_doms cfg < 2 ^ 32" and "j < nr_doms cfg"
  shows "\<exists>k. 1 \<le> k \<and> k \<le> nr_doms cfg \<and> j = (next_dom cfg ^^ k) d"
proof -
  let ?N = "nr_doms cfg"
  let ?c = "next_dom cfg d"
  let ?k = "(j + ?N - ?c) mod ?N"
  have c: "?c < ?N" using assms(1) by (simp add: next_dom_def)
  have "(?c + ?k) mod ?N = (?c + (j + ?N - ?c)) mod ?N" by (simp add: mod_add_right_eq)
  also have "\<dots> = (j + ?N) mod ?N" using c by simp
  also have "\<dots> = j" using assms(3) by simp
  finally have "(next_dom cfg ^^ Suc ?k) d = j"
    using next_dom_iter [OF assms(1,2)] by simp
  moreover have "Suc ?k \<le> ?N" using assms(1) by (simp add: Suc_leI)
  ultimately have "1 \<le> Suc ?k \<and> Suc ?k \<le> ?N \<and> j = (next_dom cfg ^^ Suc ?k) d" by simp
  then show ?thesis by blast
qed

lemma task_pick_domain_mask:
  assumes "0 < nr_doms cfg" and "nr_doms cfg \<le> 64"
    and "0 \<le> this_cpu s" and "this_cpu s < int (MAX_CPUS cfg)"
    and "task_pick_domain cfg s p cm = (d, s')"
    and "j < nr_doms cfg"
  shows "lb_domains s' = lb_domains s
         \<and> (bit (dom_mask (task_ctxs s' p)) j \<longleftrightarrow> cpumask_intersects_domain s cm j)"
proof -
  let ?cpu = "this_cpu s"
  let ?s1 = "upd_taskc p (\<lambda>tc. tc\<lparr>dom_mask := 0\<rparr>) s"
  let ?dom0 = "dom_rr_cur (pcpu_ctxs ?s1 ?cpu)"
  let ?s2 = "?s1\<lparr>pcpu_ctxs := (pcpu_ctxs ?s1)(?cpu :=
                        (pcpu_ctxs ?s1 ?cpu)\<lparr>dom_rr_cur := (?dom0 + 1) mod 2 ^ 32\<rparr>)\<rparr>"
  let ?s3 = "task_set_preferred_mempolicy_dom_mask cfg p ?s2"
  obtain fd pd s4 where
    pl: "pick_loop cfg (nr_doms cfg) p cm ?dom0 (NO_DOM_FOUND cfg) (NO_DOM_FOUND cfg) ?s3
           = (fd, pd, s4)"
    by (metis prod_cases3)
  have s': "s' = s4"
    using assms(3,4,5) pl by (simp add: task_pick_domain_def Let_def)
  have lb3: "lb_domains ?s3 = lb_domains s"
    using mempolicy_frame [of cfg p ?s2] by (simp add: upd_taskc_def)
  have dm3: "dom_mask (task_ctxs ?s3 p) = 0"
    using mempolicy_frame [of cfg p ?s2 p] by (simp add: upd_taskc_def)
  have i3: "cpumask_intersects_domain ?s3 = cpumask_intersects_domain s"
    using lb3 by (rule intersects_domain_cong)
  have n32: "nr_doms cfg < 2 ^ 32" using assms(2) by simp
  from next_dom_visits_all [OF assms(1) n32 assms(6), of ?dom0]
  have vis: "\<exists>k. 1 \<le> k \<and> k \<le> nr_doms cfg \<and> j = (next_dom cfg ^^ k) ?dom0" .
  have j64: "j < 64" using assms(2,6) by simp
  from pick_loop_mask [OF pl] have
    "lb_domains s4 = lb_domains ?s3"
    "bit (dom_mask (task_ctxs s4 p)) j \<longleftrightarrow>
            bit (dom_mask (task_ctxs ?s3 p)) j
            \<or> (j < 64 \<and> cpumask_intersects_domain ?s3 cm j
                \<and> (\<exists>k. 1 \<le> k \<and> k \<le> nr_doms cfg \<and> j = (next_dom cfg ^^ k) ?dom0))"
    by simp_all
  then show ?thesis
    unfolding s' i3 dm3 lb3 using vis j64 by simp
qed

lemma task_pick_and_set_domain_mask:
  assumes "1 < nr_doms cfg" and "nr_doms cfg \<le> 64"
    and "0 \<le> this_cpu s" and "this_cpu s < int (MAX_CPUS cfg)"
    and "j < nr_doms cfg"
  shows "bit (dom_mask (task_ctxs (task_pick_and_set_domain cfg s p cm init_dsq_vtime) p)) j
           \<longleftrightarrow> cpumask_intersects_domain s cm j"
proof -
  obtain d s1 where pk: "task_pick_domain cfg s p cm = (d, s1)"
    by (cases "task_pick_domain cfg s p cm") auto
  obtain ok s2 where sd: "task_set_domain cfg s1 p d init_dsq_vtime = (ok, s2)"
    by (cases "task_set_domain cfg s1 p d init_dsq_vtime") auto
  have n0: "0 < nr_doms cfg" using assms(1) by simp
  from task_pick_domain_mask [OF n0 assms(2,3,4) pk assms(5)]
  have m1: "bit (dom_mask (task_ctxs s1 p)) j \<longleftrightarrow> cpumask_intersects_domain s cm j" by simp
  from task_set_domain_frame [OF sd]
  have m2: "dom_mask (task_ctxs s2 p) = dom_mask (task_ctxs s1 p)" by simp
  have "dom_mask (task_ctxs (task_pick_and_set_domain cfg s p cm init_dsq_vtime) p)
          = dom_mask (task_ctxs s2 p)"
    using assms(1) pk sd by (simp add: task_pick_and_set_domain_def scx_bpf_error_def)
  with m1 m2 show ?thesis by simp
qed

text \<open>
  C4, as the spec has it, holds for every admitted task. \<open>task_pick_and_set_domain\<close>
  runs \<open>task_pick_domain\<close>, which fills the mask, only \<open>if (nr_doms > 1)\<close>. On a
  machine with a single domain a task is admitted to domain 0, whose CPUs its affinity
  intersects, and bit 0 of its membership mask stays clear.
\<close>

theorem domain_coverage_single_dom_counterexample:
  "nr_doms cfg_one = 1 \<and> fst (rusty_init_task cfg_one s_one 8 True 0 0) = 0
   \<and> target_dom (task_ctxs (snd (rusty_init_task cfg_one s_one 8 True 0 0)) 8) = 0
   \<and> task_cpumasks (snd (rusty_init_task cfg_one s_one 8 True 0 0)) 8 = {0, 1, 2, 3}
   \<and> cpumask_intersects_domain s_one (cpus_ptr (procs s_one 8)) 0
   \<and> \<not> bit (dom_mask (task_ctxs (snd (rusty_init_task cfg_one s_one 8 True 0 0)) 8)) 0"
  by (simp add: rusty_init_task_def task_pick_and_set_domain_def task_set_domain_def
      set_domain_update_def new_task_ctx_def cpumask_intersects_domain_def
      lookup_task_ctx_mask_def lookup_task_ctx_def
      try_lookup_task_ctx_def lookup_task_bpfmask_def lookup_dom_ctx_def try_lookup_dom_ctx_def
      lb_domain_get_def bpf_cpumask_intersects_def dom_min_vruntime_def
      upd_taskc_def upd_proc_def
      cfg_one_def s_one_def s0_def cfg0_def p0_def taskc0_def domc0_def lb_dom_def Let_def)


text \<open>
  C4, amended. On a scheduler with more than one domain (and at most 64, the width of
  the mask), after domain selection has run for a task, at admission
  (\<open>rusty_init_task\<close> returning 0) and on an affinity change (\<open>rusty_set_cpumask\<close>),
  the task's domain-membership mask has bit \<open>d\<close> set exactly when domain \<open>d\<close> has a CPU
  mask that intersects the task's affinity mask, for every \<open>d < nr_doms\<close>.
\<close>

theorem domain_coverage:
  assumes "1 < nr_doms cfg" and "nr_doms cfg \<le> 64"
    and "0 \<le> this_cpu s" and "this_cpu s < int (MAX_CPUS cfg)"
    and "d < nr_doms cfg"
  shows "(rusty_init_task cfg s p alloc_ok update_ret create_ret = (0, s') \<longrightarrow>
            (bit (dom_mask (task_ctxs s' p)) d
               \<longleftrightarrow> cpumask_intersects_domain s (cpus_ptr (procs s p)) d))
         \<and> (p \<in> task_ctx_present s \<longrightarrow>
            (bit (dom_mask (task_ctxs (rusty_set_cpumask cfg s p cpumask) p)) d
               \<longleftrightarrow> cpumask_intersects_domain s cpumask d))"
proof (intro conjI impI)
  assume a: "rusty_init_task cfg s p alloc_ok update_ret create_ret = (0, s')"
  let ?s3 = "s\<lparr>task_ctxs := (task_ctxs s)(p := new_task_ctx (now s)),
               task_ctx_present := insert p (task_ctx_present s),
               task_masks := (task_masks s)(p \<mapsto> True),
               task_cpumasks := (task_cpumasks s)(p := {})\<rparr>"
  have "s' = task_pick_and_set_domain cfg ?s3 p (cpus_ptr (procs s p)) True"
    using a by (auto simp: rusty_init_task_def Let_def split: if_splits)
  moreover have "cpumask_intersects_domain ?s3 = cpumask_intersects_domain s"
    by (rule intersects_domain_cong) simp
  moreover have "0 \<le> this_cpu ?s3" "this_cpu ?s3 < int (MAX_CPUS cfg)"
    using assms(3,4) by simp_all
  ultimately show "bit (dom_mask (task_ctxs s' p)) d
               \<longleftrightarrow> cpumask_intersects_domain s (cpus_ptr (procs s p)) d"
    using task_pick_and_set_domain_mask [OF assms(1,2) _ _ assms(5), of ?s3 p
        "cpus_ptr (procs s p)" True]
    by simp
next
  assume "p \<in> task_ctx_present s"
  then have "dom_mask (task_ctxs (rusty_set_cpumask cfg s p cpumask) p)
        = dom_mask (task_ctxs (task_pick_and_set_domain cfg s p cpumask False) p)"
    by (simp add: rusty_set_cpumask_def lookup_task_ctx_def try_lookup_task_ctx_def
        upd_taskc_def Let_def split: option.splits)
  then show "bit (dom_mask (task_ctxs (rusty_set_cpumask cfg s p cpumask) p)) d
               \<longleftrightarrow> cpumask_intersects_domain s cpumask d"
    using task_pick_and_set_domain_mask [OF assms, of p cpumask False] by simp
qed

theorem domain_coverage_witness:
  "cpumask_intersects_domain s_new (cpus_ptr (procs s_new 8)) 1
   \<and> \<not> cpumask_intersects_domain s_new (cpus_ptr (procs s_new 8)) 0
   \<and> fst (rusty_init_task cfg0 s_new 8 True 0 0) = 0
   \<and> bit (dom_mask (task_ctxs (snd (rusty_init_task cfg0 s_new 8 True 0 0)) 8)) 1
   \<and> \<not> bit (dom_mask (task_ctxs (snd (rusty_init_task cfg0 s_new 8 True 0 0)) 8)) 0"
proof -
  obtain r s' where e: "rusty_init_task cfg0 s_new 8 True 0 0 = (r, s')"
    by (cases "rusty_init_task cfg0 s_new 8 True 0 0") auto
  then have r: "r = 0" by (auto simp: rusty_init_task_def Let_def)
  have h: "1 < nr_doms cfg0" "nr_doms cfg0 \<le> 64" "0 \<le> this_cpu s_new"
    "this_cpu s_new < int (MAX_CPUS cfg0)"
    by (simp_all add: cfg0_def s_new_def s0_def)
  have d: "(0::nat) < nr_doms cfg0" "(1::nat) < nr_doms cfg0" by (simp_all add: cfg0_def)
  have i: "cpumask_intersects_domain s_new (cpus_ptr (procs s_new 8)) 1"
    "\<not> cpumask_intersects_domain s_new (cpus_ptr (procs s_new 8)) 0"
    by (simp_all add: cpumask_intersects_domain_def lb_domain_get_def
        bpf_cpumask_intersects_def s_new_def s0_def p0_def lb_dom_def)
  from domain_coverage [OF h d(1), of 8 True 0 0 s'] domain_coverage [OF h d(2), of 8 True 0 0 s']
    e r i
  have "bit (dom_mask (task_ctxs s' 8)) 1" "\<not> bit (dom_mask (task_ctxs s' 8)) 0"
    by simp_all
  with e r i show ?thesis by simp
qed

end
